theory Spec2Isabelle
  imports Complex_Main "HOL-Library.Multiset"
begin

section \<open>json2hcl: the two conversion directions\<close>

text \<open>
  The program converts a JSON document to native HCL (\<open>toHCL\<close>, package \<open>main\<close>) and HCL
  to JSON (\<open>toJSON\<close>, package \<open>convert\<close>).  Parsing and printing are done by the libraries
  \<open>hcl\<close>, \<open>hclwrite\<close> and \<open>cty\<close>; the repository's own code is the traversal in between,
  which is what is embedded here.
\<close>

subsection \<open>Values read from JSON (\<open>cty.Value\<close>)\<close>

text \<open>
  Evaluating a JSON expression with a nil context yields null, a bool, a number, a string,
  a tuple (from a JSON array) or an object (from a JSON object).  JSON arrays never become
  \<open>cty\<close> lists, so the test \<open>IsListType() || IsTupleType()\<close> of the source is \<open>is_CTuple\<close>.
  An object is kept as the list of its attributes (names distinct) in the order in which
  \<open>range val.AsValueMap()\<close> enumerates them; Go leaves that order unspecified.
\<close>

datatype cty =
    CNull
  | CBool bool
  | CNumber rat
  | CString string
  | CTuple "cty list"
  | CObject "(string \<times> cty) list"

fun is_CTuple :: "cty \<Rightarrow> bool" where
  "is_CTuple (CTuple vs) = True"
| "is_CTuple v = False"

fun is_CObject :: "cty \<Rightarrow> bool" where
  "is_CObject (CObject m) = True"
| "is_CObject v = False"

subsection \<open>The document being written (\<open>hclwrite.Body\<close>)\<close>

text \<open>
  The repository builds raw expressions from two kinds of token only.  An attribute is set
  either from raw tokens (\<open>SetAttributeRaw\<close>) or from a value (\<open>SetAttributeValue\<close>), which
  the library renders as a literal.  A body is the sequence of its attributes and blocks in
  the order in which they were added.
\<close>

datatype tokentype = TokenIdent | TokenQuotedLit

datatype token = Token tokentype string

datatype wexpr =
    Raw "token list"
  | Literal cty

datatype item =
    Attribute string wexpr
  | Block string "string list" "item list"

type_synonym wbody = "item list"

fun isAttributeNamed :: "string \<Rightarrow> item \<Rightarrow> bool" where
  "isAttributeNamed n (Attribute m e) = (m = n)"
| "isAttributeNamed n (Block t ls b) = False"

fun replaceAttribute :: "string \<Rightarrow> wexpr \<Rightarrow> item \<Rightarrow> item" where
  "replaceAttribute n e (Attribute m e') = (if m = n then Attribute m e else Attribute m e')"
| "replaceAttribute n e (Block t ls b) = Block t ls b"

text \<open>
  \<open>SetAttributeRaw\<close> and \<open>SetAttributeValue\<close> replace the expression of an existing attribute
  of that name, or else add the attribute at the end of the body.
\<close>

definition setAttribute :: "wbody \<Rightarrow> string \<Rightarrow> wexpr \<Rightarrow> wbody" where
  "setAttribute body n e =
     (if list_ex (isAttributeNamed n) body then map (replaceAttribute n e) body
      else body @ [Attribute n e])"

definition SetAttributeRaw :: "wbody \<Rightarrow> string \<Rightarrow> token list \<Rightarrow> wbody" where
  "SetAttributeRaw body n toks = setAttribute body n (Raw toks)"

definition SetAttributeValue :: "wbody \<Rightarrow> string \<Rightarrow> cty \<Rightarrow> wbody" where
  "SetAttributeValue body n v = setAttribute body n (Literal v)"

subsection \<open>The attribute emitter\<close>

definition isUnquotedType :: "string \<Rightarrow> bool" where
  "isUnquotedType str \<longleftrightarrow>
     str \<in> set [''string'', ''number'', ''bool'', ''list'', ''set'', ''map'', ''object'',
                 ''tuple'', ''any'']"

text \<open>
  \<open>isSimpleReference\<close> ranges over the runes of the string.  Every rune it accepts is a
  single ASCII byte, and a byte of a longer encoding decodes to a rune it rejects, so the
  test is one on the bytes.
\<close>

definition isSimpleRune :: "char \<Rightarrow> bool" where
  "isSimpleRune r \<longleftrightarrow>
     (let n = (of_char r :: nat) in
        (of_char CHR ''a'' \<le> n \<and> n \<le> of_char CHR ''z'') \<or>
        (of_char CHR ''A'' \<le> n \<and> n \<le> of_char CHR ''Z'') \<or>
        (of_char CHR ''0'' \<le> n \<and> n \<le> of_char CHR ''9'') \<or>
        r = CHR ''.'' \<or> r = CHR ''_'' \<or> r = CHR ''-'')"

definition isSimpleReference :: "string \<Rightarrow> bool" where
  "isSimpleReference expr \<longleftrightarrow> list_all isSimpleRune expr \<and> length expr > 0"

text \<open>The empty string is the source's "no": \<open>unwrapInterpolationExpression\<close> returns it.\<close>

definition unwrapInterpolationExpression :: "string \<Rightarrow> string" where
  "unwrapInterpolationExpression str =
     (if length str > 3 \<and> take 2 str = ''${'' \<and> drop (length str - 1) str = ''}''
      then (let inner = take (length str - 1 - 2) (drop 2 str)
            in if isSimpleReference inner then inner else [])
      else [])"

fun Contains :: "string \<Rightarrow> string \<Rightarrow> bool" where
  "Contains [] sub = (sub = [])"
| "Contains (c # cs) sub = (take (length sub) (c # cs) = sub \<or> Contains cs sub)"

definition setAttributeWithExpressionHandling :: "wbody \<Rightarrow> string \<Rightarrow> cty \<Rightarrow> wbody" where
  "setAttributeWithExpressionHandling body n val =
     (case val of
        CString strVal \<Rightarrow>
          if n = ''type'' \<and> isUnquotedType strVal
          then SetAttributeRaw body n [Token TokenIdent strVal]
          else if unwrapInterpolationExpression strVal \<noteq> []
          then SetAttributeRaw body n [Token TokenIdent (unwrapInterpolationExpression strVal)]
          else if Contains strVal ''${''
          then SetAttributeRaw body n [Token TokenQuotedLit ([CHR 0x22] @ strVal @ [CHR 0x22])]
          else SetAttributeValue body n val
      | _ \<Rightarrow> SetAttributeValue body n val)"

subsection \<open>The block classifier\<close>

text \<open>
  \<open>targetFileType\<close> is a package-level variable, written once by \<open>main\<close> before the
  conversion starts (\<open>''terraform''\<close> or \<open>''tfvars''\<close>); the functions that read it take it as
  their first argument.
\<close>

definition hclBlockTypes :: "string list" where
  "hclBlockTypes =
     [''resource'', ''data'', ''provider'', ''output'', ''locals'', ''module'', ''terraform'',
      ''attribute'', ''global_secondary_index'', ''local_secondary_index'', ''backup_policy'',
      ''point_in_time_recovery'', ''server_side_encryption'', ''stream_specification'',
      ''ttl'']"

text \<open>The structural test on the first element, after the name tests have not decided.\<close>

definition hasNestedBlockStructure :: "cty \<Rightarrow> bool" where
  "hasNestedBlockStructure firstElem =
     (case firstElem of
        CObject firstElemMap \<Rightarrow>
          if length firstElemMap = 1
          then (case snd (hd firstElemMap) of
                  CTuple vs \<Rightarrow>
                    if length vs = 1
                    then (case hd vs of
                            CObject valueFirstElemMap \<Rightarrow> length valueFirstElemMap = 1
                          | _ \<Rightarrow> False)
                    else False
                | _ \<Rightarrow> False)
          else False
      | _ \<Rightarrow> False)"

definition isHCLBlockArray :: "string \<Rightarrow> string \<Rightarrow> cty \<Rightarrow> bool" where
  "isHCLBlockArray targetFileType n val =
     (case val of
        CTuple vs \<Rightarrow>
          if length vs = 0 then False
          else if n = ''variable'' then targetFileType = ''terraform''
          else if n \<in> set hclBlockTypes then True
          else hasNestedBlockStructure (hd vs)
      | _ \<Rightarrow> False)"

definition objectBlockTypes :: "string list" where
  "objectBlockTypes =
     [''variable'', ''output'', ''locals'', ''provider'', ''resource'', ''data'', ''module'',
      ''terraform'']"

definition shouldConvertObjectToBlocks :: "string \<Rightarrow> string \<Rightarrow> cty \<Rightarrow> bool" where
  "shouldConvertObjectToBlocks targetFileType n val =
     (if \<not> is_CObject val then False
      else if targetFileType = ''terraform'' then n \<in> set objectBlockTypes
      else False)"

subsection \<open>The label and content extractor\<close>

text \<open>
  \<open>extractBlockLabelsAndContent\<close> takes a block instance that the caller has tested to be an
  object; its argument here is the attribute list of that object.  The source also returns
  an error, which is nil on every path.  When the single key holds a one-element list whose
  element is not an object, no branch of the source assigns anything and the function
  returns no labels and an empty content.
\<close>

definition extractBlockLabelsAndContent ::
  "(string \<times> cty) list \<Rightarrow> string list \<times> (string \<times> cty) list" where
  "extractBlockLabelsAndContent blockMap =
     (if length blockMap = 1
      then (case hd blockMap of (key, val) \<Rightarrow>
        (case val of
           CTuple vs \<Rightarrow>
             if length vs = 1
             then (case hd vs of
                CObject firstElemMap \<Rightarrow>
                  if length firstElemMap = 1
                  then (case hd firstElemMap of (innerKey, innerValue) \<Rightarrow>
                    (case innerValue of
                       CTuple ivs \<Rightarrow>
                         if length ivs = 1
                         then (case hd ivs of
                                 CObject innerMap \<Rightarrow> ([key, innerKey], innerMap)
                               | _ \<Rightarrow> ([key], [(innerKey, innerValue)]))
                         else ([key], [(innerKey, innerValue)])
                     | _ \<Rightarrow> ([key], [(innerKey, innerValue)])))
                  else ([key], firstElemMap)
              | _ \<Rightarrow> ([], []))
             else ([], [(key, val)])
         | _ \<Rightarrow> ([], [(key, val)])))
      else ([], blockMap))"

subsection \<open>The block synthesizer\<close>

datatype error =
    NotABlockArray
  | BlockInstanceNotObject
  | NotAnObject
  | ExpectedObjectInArray string "string list"
  | ExpectedSingleElementArray string "string list"
  | UnexpectedValueType string "string list"
  | UnableToGetContent

text \<open>
  The source mutates the body it is given and may return an error after it has already
  added blocks, so each function returns the error (if any) together with the body as it
  stands at the return.  A new block is created in the body first and filled afterwards; as
  nothing else touches the body in between, the model fills the block and then adds it.
\<close>

lemma length_one_singleton: "length xs = Suc 0 \<Longrightarrow> \<exists>x. xs = [x]"
  by (cases xs) auto

lemma extract_content_size:
  "size_list (size_prod (\<lambda>x. 0) size) (snd (extractBlockLabelsAndContent m))
     \<le> size_list (size_prod (\<lambda>x. 0) size) m"
  unfolding extractBlockLabelsAndContent_def
  by (auto split: if_splits prod.splits cty.splits dest!: length_one_singleton)

function convertJSONBlockArray :: "string \<Rightarrow> cty \<Rightarrow> wbody \<Rightarrow> error option \<times> wbody"
  and blockInstances :: "string \<Rightarrow> cty list \<Rightarrow> wbody \<Rightarrow> error option \<times> wbody"
  and blockContent :: "(string \<times> cty) list \<Rightarrow> wbody \<Rightarrow> wbody"
where
  "convertJSONBlockArray blockType val nativeBody =
     (case val of
        CTuple insts \<Rightarrow> blockInstances blockType insts nativeBody
      | _ \<Rightarrow> (Some NotABlockArray, nativeBody))"
| "blockInstances blockType [] nativeBody = (None, nativeBody)"
| "blockInstances blockType (blockInstance # rest) nativeBody =
     (case blockInstance of
        CObject blockMap \<Rightarrow>
          blockInstances blockType rest
            (nativeBody @
              [Block blockType (fst (extractBlockLabelsAndContent blockMap))
                 (blockContent (snd (extractBlockLabelsAndContent blockMap)) [])])
      | _ \<Rightarrow> (Some BlockInstanceNotObject, nativeBody))"
| "blockContent [] body = body"
| "blockContent ((attrName, attrVal) # rest) body =
     (if is_CTuple attrVal
      then (case convertJSONBlockArray attrName attrVal body of
              (Some err, body') \<Rightarrow>
                blockContent rest (setAttributeWithExpressionHandling body' attrName attrVal)
            | (None, body') \<Rightarrow> blockContent rest body')
      else blockContent rest (setAttributeWithExpressionHandling body attrName attrVal))"
  by pat_completeness auto
termination
  apply (relation "measure (\<lambda>x. case x of
            Inl (bt, v, nb) \<Rightarrow> size v
          | Inr (Inl (bt, vs, nb)) \<Rightarrow> size_list size vs
          | Inr (Inr (m, b)) \<Rightarrow> size_list (size_prod (\<lambda>x. 0) size) m)")
  apply auto
  apply (rule le_less_trans [OF extract_content_size])
  apply simp
  done

text \<open>
  The body of a block made from an object (\<open>convertObjectToBlocksRecursive\<close>): a list-valued
  field goes through the classifier, and a block array that fails to convert is set as an
  attribute of the block.
\<close>

fun objectBlockAttributes :: "string \<Rightarrow> (string \<times> cty) list \<Rightarrow> wbody \<Rightarrow> wbody" where
  "objectBlockAttributes targetFileType [] body = body"
| "objectBlockAttributes targetFileType ((attrName, attrVal) # rest) body =
     objectBlockAttributes targetFileType rest
       (if is_CTuple attrVal
        then (if isHCLBlockArray targetFileType attrName attrVal
              then (case convertJSONBlockArray attrName attrVal body of
                      (Some err, body') \<Rightarrow>
                        setAttributeWithExpressionHandling body' attrName attrVal
                    | (None, body') \<Rightarrow> body')
              else setAttributeWithExpressionHandling body attrName attrVal)
        else setAttributeWithExpressionHandling body attrName attrVal)"

fun directAttributes :: "(string \<times> cty) list \<Rightarrow> wbody \<Rightarrow> wbody" where
  "directAttributes [] body = body"
| "directAttributes ((attrName, attrVal) # rest) body =
     directAttributes rest (setAttributeWithExpressionHandling body attrName attrVal)"

fun convertObjectToBlocksRecursive ::
    "string \<Rightarrow> string \<Rightarrow> string list \<Rightarrow> cty \<Rightarrow> wbody \<Rightarrow> error option \<times> wbody"
  and nestedLevels ::
    "string \<Rightarrow> string \<Rightarrow> string list \<Rightarrow> (string \<times> cty) list \<Rightarrow> wbody \<Rightarrow> error option \<times> wbody"
where
  "convertObjectToBlocksRecursive targetFileType blockType labels val nativeBody =
     (case val of
        CTuple vs \<Rightarrow>
          if length vs = 1
          then (case hd vs of
                  CObject firstElemMap \<Rightarrow>
                    (None, nativeBody @
                       [Block blockType labels
                          (objectBlockAttributes targetFileType firstElemMap [])])
                | _ \<Rightarrow> (Some (ExpectedObjectInArray blockType labels), nativeBody))
          else (Some (ExpectedSingleElementArray blockType labels), nativeBody)
      | CObject valueMap \<Rightarrow>
          if list_all (\<lambda>(k, v). is_CTuple v) valueMap \<and> length valueMap > 0
          then nestedLevels targetFileType blockType labels valueMap nativeBody
          else (None, nativeBody @ [Block blockType labels (directAttributes valueMap [])])
      | _ \<Rightarrow> (Some (UnexpectedValueType blockType labels), nativeBody))"
| "nestedLevels targetFileType blockType labels [] nativeBody = (None, nativeBody)"
| "nestedLevels targetFileType blockType labels ((nestedKey, nestedValue) # rest) nativeBody =
     (case convertObjectToBlocksRecursive targetFileType blockType (labels @ [nestedKey])
             nestedValue nativeBody of
        (Some err, nativeBody') \<Rightarrow> (Some err, nativeBody')
      | (None, nativeBody') \<Rightarrow>
          nestedLevels targetFileType blockType labels rest nativeBody')"

fun objectEntries ::
  "string \<Rightarrow> string \<Rightarrow> (string \<times> cty) list \<Rightarrow> wbody \<Rightarrow> error option \<times> wbody" where
  "objectEntries targetFileType blockType [] nativeBody = (None, nativeBody)"
| "objectEntries targetFileType blockType ((key, val) # rest) nativeBody =
     (case convertObjectToBlocksRecursive targetFileType blockType [key] val nativeBody of
        (Some err, nativeBody') \<Rightarrow> (Some err, nativeBody')
      | (None, nativeBody') \<Rightarrow> objectEntries targetFileType blockType rest nativeBody')"

definition convertObjectToBlocks ::
  "string \<Rightarrow> string \<Rightarrow> cty \<Rightarrow> wbody \<Rightarrow> error option \<times> wbody" where
  "convertObjectToBlocks targetFileType blockType val nativeBody =
     (case val of
        CObject valueMap \<Rightarrow> objectEntries targetFileType blockType valueMap nativeBody
      | _ \<Rightarrow> (Some NotAnObject, nativeBody))"

subsection \<open>The entry point of the forward direction\<close>

text \<open>
  \<open>hcl.Body\<close> is an interface of the library.  A JSON body is represented by what its two
  methods return to \<open>convertToNativeHCL\<close>: \<open>JustAttributes\<close> (\<open>None\<close> when the diagnostics
  hold an error) and \<open>PartialContent\<close> with the empty schema (the attributes and the blocks
  of the content, \<open>None\<close> on an error).  Both attribute collections are Go maps and are
  listed in the order in which \<open>range\<close> enumerates them.  An attribute carries the result of
  \<open>attr.Expr.Value(nil)\<close>, \<open>None\<close> when its diagnostics hold an error.
\<close>

datatype jsonBody =
  JsonBody
    (JustAttributes: "(string \<times> cty option) list option")
    (PartialContent:
       "((string \<times> cty option) list \<times> (string \<times> string list \<times> jsonBody) list) option")

text \<open>What the first loop does with one attribute whose value was evaluated.\<close>

definition convertAttribute :: "string \<Rightarrow> string \<Rightarrow> cty \<Rightarrow> wbody \<Rightarrow> wbody" where
  "convertAttribute targetFileType n val nativeBody =
     (if is_CTuple val
      then (if isHCLBlockArray targetFileType n val
            then (case convertJSONBlockArray n val nativeBody of
                    (Some err, nativeBody') \<Rightarrow>
                      setAttributeWithExpressionHandling nativeBody' n val
                  | (None, nativeBody') \<Rightarrow> nativeBody')
            else setAttributeWithExpressionHandling nativeBody n val)
      else if is_CObject val
      then (if shouldConvertObjectToBlocks targetFileType n val
            then (case convertObjectToBlocks targetFileType n val nativeBody of
                    (Some err, nativeBody') \<Rightarrow>
                      setAttributeWithExpressionHandling nativeBody' n val
                  | (None, nativeBody') \<Rightarrow> nativeBody')
            else setAttributeWithExpressionHandling nativeBody n val)
      else setAttributeWithExpressionHandling nativeBody n val)"

fun justAttributesLoop :: "string \<Rightarrow> (string \<times> cty option) list \<Rightarrow> wbody \<Rightarrow> wbody" where
  "justAttributesLoop targetFileType [] nativeBody = nativeBody"
| "justAttributesLoop targetFileType ((n, valOpt) # rest) nativeBody =
     (case valOpt of
        None \<Rightarrow> justAttributesLoop targetFileType rest nativeBody
      | Some val \<Rightarrow>
          justAttributesLoop targetFileType rest
            (convertAttribute targetFileType n val nativeBody))"

fun contentAttributesLoop :: "(string \<times> cty option) list \<Rightarrow> wbody \<Rightarrow> wbody" where
  "contentAttributesLoop [] nativeBody = nativeBody"
| "contentAttributesLoop ((n, valOpt) # rest) nativeBody =
     (case valOpt of
        None \<Rightarrow> contentAttributesLoop rest nativeBody
      | Some val \<Rightarrow>
          contentAttributesLoop rest (setAttributeWithExpressionHandling nativeBody n val))"

text \<open>
  On an error the caller prints nothing of the body, so the result is either the error or
  the finished body.
\<close>

fun convertToNativeHCL :: "string \<Rightarrow> jsonBody \<Rightarrow> wbody \<Rightarrow> error + wbody"
  and contentBlocksLoop ::
    "string \<Rightarrow> (string \<times> string list \<times> jsonBody) list \<Rightarrow> wbody \<Rightarrow> error + wbody"
where
  "convertToNativeHCL targetFileType (JsonBody attrs content) nativeBody =
     (case attrs of
        Some as \<Rightarrow> Inr (justAttributesLoop targetFileType as nativeBody)
      | None \<Rightarrow>
          (case content of
             None \<Rightarrow> Inl UnableToGetContent
           | Some (cattrs, blocks) \<Rightarrow>
               contentBlocksLoop targetFileType blocks
                 (contentAttributesLoop cattrs nativeBody)))"
| "contentBlocksLoop targetFileType [] nativeBody = Inr nativeBody"
| "contentBlocksLoop targetFileType ((blockType, blockLabels, blockBody) # rest) nativeBody =
     (case convertToNativeHCL targetFileType blockBody [] of
        Inl err \<Rightarrow> Inl err
      | Inr body \<Rightarrow>
          contentBlocksLoop targetFileType rest
            (nativeBody @ [Block blockType blockLabels body]))"

section \<open>The classifier follows the documented decision order\<close>

text \<open>
  The two dialects of the specification are the two values that \<open>main\<close> gives to
  \<open>targetFileType\<close>: \<open>''terraform''\<close> prefers blocks, anything else (\<open>''tfvars''\<close>) keeps
  values nested.
\<close>

datatype dialect = BlockPreferring | NestPreferring

definition dialectOf :: "string \<Rightarrow> dialect" where
  "dialectOf targetFileType =
     (if targetFileType = ''terraform'' then BlockPreferring else NestPreferring)"

text \<open>
  The well-known block types of the specification: the names of \<open>hclBlockTypes\<close> and the
  name reserved for variable declarations.
\<close>

definition wellKnownBlockTypes :: "string list" where
  "wellKnownBlockTypes = ''variable'' # hclBlockTypes"

text \<open>The decision order in the words of the specification (section 4.3).\<close>

definition isBlockShaped_spec :: "dialect \<Rightarrow> string \<Rightarrow> cty \<Rightarrow> bool" where
  "isBlockShaped_spec d key v =
     (case v of
        CTuple [] \<Rightarrow> False
      | CTuple (first # others) \<Rightarrow>
          if key \<in> set wellKnownBlockTypes
          then (if key = ''variable'' then d = BlockPreferring else True)
          else (case first of
                  CObject [(k, CTuple [CObject [(k2, v2)]])] \<Rightarrow> True
                | _ \<Rightarrow> False)
      | _ \<Rightarrow> False)"

lemma hasNestedBlockStructure_shape:
  "hasNestedBlockStructure x =
     (case x of CObject [(k, CTuple [CObject [(k2, v2)]])] \<Rightarrow> True | _ \<Rightarrow> False)"
  unfolding hasNestedBlockStructure_def
  by (auto split: cty.splits list.splits prod.splits)

text \<open>
  Claim C2.  For every key and value the classifier \<open>isHCLBlockArray\<close> decides exactly as
  the documented order does: a value that is not a list is not block-shaped; an empty list
  is not; a well-known block type is, except \<open>variable\<close>, which is block-shaped under the
  block-preferring dialect only; otherwise the list is block-shaped exactly when its first
  element is a single-key object holding a one-element list of a single-key object.
\<close>

theorem isHCLBlockArray_decision_order:
  "isHCLBlockArray targetFileType key v = isBlockShaped_spec (dialectOf targetFileType) key v"
proof (cases v)
  case (CTuple vs)
  then show ?thesis
    by (cases vs)
      (simp_all add: isHCLBlockArray_def isBlockShaped_spec_def dialectOf_def
        wellKnownBlockTypes_def hasNestedBlockStructure_shape)
qed (simp_all add: isHCLBlockArray_def isBlockShaped_spec_def)

text \<open>
  Scenario B of the specification: a flat list of records with several fields each, under
  a name that is no block type, is not block-shaped.
\<close>

lemma subnets_stay_an_attribute:
  "\<not> isHCLBlockArray targetFileType ''subnets''
       (CTuple [CObject [(''name'', CString ''a''), (''cidr'', CString ''10.0.0.0/24'')],
                CObject [(''name'', CString ''b''), (''cidr'', CString ''10.0.1.0/24'')]])"
  by (simp add: isHCLBlockArray_def hclBlockTypes_def hasNestedBlockStructure_def)

section \<open>Objects become blocks by name only\<close>

text \<open>
  Claim C7.  An object value is classified as block-shaped exactly when the dialect is
  block-preferring and the key is one of the object block types, all of which are
  well-known block types; the shape of the object plays no part.  For any other key, or
  under the nest-preferring dialect, the object is set as a plain attribute.
\<close>

theorem shouldConvertObjectToBlocks_by_name_only:
  "shouldConvertObjectToBlocks targetFileType key (CObject m)
     = (dialectOf targetFileType = BlockPreferring \<and> key \<in> set objectBlockTypes)
   \<and> set objectBlockTypes \<subseteq> set wellKnownBlockTypes
   \<and> (\<not> (dialectOf targetFileType = BlockPreferring \<and> key \<in> set wellKnownBlockTypes) \<longrightarrow>
        convertAttribute targetFileType key (CObject m) body
          = SetAttributeValue body key (CObject m))"
  by (auto simp: shouldConvertObjectToBlocks_def dialectOf_def objectBlockTypes_def
      wellKnownBlockTypes_def hclBlockTypes_def convertAttribute_def
      setAttributeWithExpressionHandling_def)

theorem shouldConvertObjectToBlocks_by_name_only_witness:
  "\<not> (dialectOf ''tfvars'' = BlockPreferring \<and> ''variable'' \<in> set wellKnownBlockTypes)
   \<and> \<not> shouldConvertObjectToBlocks ''tfvars'' ''variable''
         (CObject [(''region'', CString ''eu-west-1'')])
   \<and> convertAttribute ''tfvars'' ''variable'' (CObject [(''region'', CString ''eu-west-1'')]) []
       = [Attribute ''variable'' (Literal (CObject [(''region'', CString ''eu-west-1'')]))]"
  using shouldConvertObjectToBlocks_by_name_only
    [of "''tfvars''" "''variable''" "[(''region'', CString ''eu-west-1'')]" "[]"]
  by (simp add: dialectOf_def SetAttributeValue_def setAttribute_def)

section \<open>End-to-end scenario: a variable declaration\<close>

text \<open>
  Claim C8.  Under the block-preferring dialect the document
  \<open>{"variable":{"region":[{"type":"string"}]}}\<close> becomes exactly one block of type
  \<open>variable\<close> with the single label \<open>region\<close>, whose body sets \<open>type\<close> to the bare
  identifier \<open>string\<close> (a raw identifier token, not the literal of the string).
\<close>

theorem variable_region_scenario:
  "convertToNativeHCL ''terraform''
     (JsonBody (Some [(''variable'', Some (CObject [(''region'',
         CTuple [CObject [(''type'', CString ''string'')]])]))]) content) []
   = Inr [Block ''variable'' [''region'']
           [Attribute ''type'' (Raw [Token TokenIdent ''string''])]]"
  by (simp add: convertAttribute_def shouldConvertObjectToBlocks_def objectBlockTypes_def
      convertObjectToBlocks_def setAttributeWithExpressionHandling_def isUnquotedType_def
      SetAttributeRaw_def setAttribute_def)

section \<open>What one attribute of the input adds to the document\<close>

text \<open>
  The block synthesizers only ever add blocks of the type they are given at the end of the
  body, and the emitter adds one attribute when the body has none of that name.  So each
  attribute of the input contributes a run of items carrying its own name, and the first
  loop of \<open>convertToNativeHCL\<close> concatenates these runs in the order of enumeration.
\<close>

fun itemName :: "item \<Rightarrow> string" where
  "itemName (Attribute n e) = n"
| "itemName (Block t ls b) = t"

fun isBlock :: "item \<Rightarrow> bool" where
  "isBlock (Attribute n e) = False"
| "isBlock (Block t ls b) = True"

definition namedBlocks :: "string \<Rightarrow> wbody \<Rightarrow> bool" where
  "namedBlocks t body = list_all (\<lambda>i. isBlock i \<and> itemName i = t) body"

lemma namedBlocks_simps [simp]:
  "namedBlocks t []"
  "namedBlocks t (xs @ ys) = (namedBlocks t xs \<and> namedBlocks t ys)"
  "namedBlocks t (Block t' ls b # xs) = (t' = t \<and> namedBlocks t xs)"
  "namedBlocks t (Attribute n e # xs) = False"
  by (auto simp: namedBlocks_def)

lemma list_ex_only_blocks:
  "namedBlocks t bs \<Longrightarrow> \<not> list_ex (isAttributeNamed n) bs"
proof (induction bs)
  case Nil
  show ?case by simp
next
  case (Cons i bs)
  then show ?case by (cases i) simp_all
qed

definition attributeExpression :: "string \<Rightarrow> cty \<Rightarrow> wexpr" where
  "attributeExpression n val =
     (case val of
        CString strVal \<Rightarrow>
          if n = ''type'' \<and> isUnquotedType strVal then Raw [Token TokenIdent strVal]
          else if unwrapInterpolationExpression strVal \<noteq> []
          then Raw [Token TokenIdent (unwrapInterpolationExpression strVal)]
          else if Contains strVal ''${''
          then Raw [Token TokenQuotedLit ([CHR 0x22] @ strVal @ [CHR 0x22])]
          else Literal val
      | _ \<Rightarrow> Literal val)"

lemma setAttributeWithExpressionHandling_expr:
  "setAttributeWithExpressionHandling body n val = setAttribute body n (attributeExpression n val)"
  by (simp add: setAttributeWithExpressionHandling_def attributeExpression_def
      SetAttributeRaw_def SetAttributeValue_def split: cty.splits)

lemma setAttribute_fresh:
  "\<not> list_ex (isAttributeNamed n) body \<Longrightarrow> setAttribute body n e = body @ [Attribute n e]"
  by (simp add: setAttribute_def)

lemma blockInstances_append:
  "blockInstances bt insts (nb @ nb2)
     = (fst (blockInstances bt insts nb2), nb @ snd (blockInstances bt insts nb2))"
proof (induction insts arbitrary: nb2)
  case Nil
  show ?case by simp
next
  case (Cons inst rest)
  show ?case
  proof (cases inst)
    case (CObject m)
    then show ?thesis
      using Cons.IH [of "nb2 @ [Block bt (fst (extractBlockLabelsAndContent m))
           (blockContent (snd (extractBlockLabelsAndContent m)) [])]"]
      by simp
  qed simp_all
qed

lemma blockInstances_blocks:
  "namedBlocks bt nb \<Longrightarrow> namedBlocks bt (snd (blockInstances bt insts nb))"
proof (induction insts arbitrary: nb)
  case Nil
  then show ?case by simp
next
  case (Cons inst rest)
  then show ?case by (cases inst) simp_all
qed

lemma convertJSONBlockArray_append:
  "convertJSONBlockArray bt v (nb @ nb2)
     = (fst (convertJSONBlockArray bt v nb2), nb @ snd (convertJSONBlockArray bt v nb2))"
  by (cases v) (simp_all add: blockInstances_append)

lemma convertJSONBlockArray_blocks:
  "namedBlocks bt nb \<Longrightarrow> namedBlocks bt (snd (convertJSONBlockArray bt v nb))"
  by (cases v) (simp_all add: blockInstances_blocks)

lemma convertObjectToBlocksRecursive_append:
  "convertObjectToBlocksRecursive ft bt labels v (nb @ nb2)
     = (fst (convertObjectToBlocksRecursive ft bt labels v nb2),
        nb @ snd (convertObjectToBlocksRecursive ft bt labels v nb2))"
  "nestedLevels ft bt labels m (nb @ nb2)
     = (fst (nestedLevels ft bt labels m nb2), nb @ snd (nestedLevels ft bt labels m nb2))"
proof (induction ft bt labels v nb2 and ft bt labels m nb2 arbitrary: nb and nb
    rule: convertObjectToBlocksRecursive_nestedLevels.induct)
  case (1 ft bt labels v nb2)
  show ?case
  proof (cases v)
    case (CTuple vs)
    then show ?thesis by (simp split: cty.splits)
  next
    case (CObject m)
    then show ?thesis using 1 by simp
  qed simp_all
next
  case (2 ft bt labels nb2)
  show ?case by simp
next
  case (3 ft bt labels k v rest nb2)
  show ?case
  proof (cases "convertObjectToBlocksRecursive ft bt (labels @ [k]) v nb2")
    case (Pair e b)
    show ?thesis
    proof (cases e)
      case None
      then show ?thesis
        using Pair "3.IH"(1) [of nb] "3.IH"(2) [OF Pair [symmetric] None, of nb] by simp
    next
      case (Some err)
      then show ?thesis using Pair "3.IH"(1) [of nb] by simp
    qed
  qed
qed


lemma convertObjectToBlocksRecursive_blocks:
  "namedBlocks bt nb \<Longrightarrow>
     namedBlocks bt (snd (convertObjectToBlocksRecursive ft bt labels v nb))"
  "namedBlocks bt nb \<Longrightarrow> namedBlocks bt (snd (nestedLevels ft bt labels m nb))"
proof (induction ft bt labels v nb and ft bt labels m nb
    rule: convertObjectToBlocksRecursive_nestedLevels.induct)
  case (1 ft bt labels v nb)
  then show ?case by (cases v) (auto split: cty.splits)
next
  case (2 ft bt labels nb)
  then show ?case by simp
next
  case (3 ft bt labels k v rest nb)
  then show ?case
    by (cases "convertObjectToBlocksRecursive ft bt (labels @ [k]) v nb")
       (auto split: option.splits)
qed

lemma objectEntries_append:
  "objectEntries ft bt m (nb @ nb2)
     = (fst (objectEntries ft bt m nb2), nb @ snd (objectEntries ft bt m nb2))"
proof (induction m arbitrary: nb2)
  case Nil
  show ?case by simp
next
  case (Cons kv rest)
  obtain k v where kv: "kv = (k, v)" by (cases kv)
  show ?case
  proof (cases "convertObjectToBlocksRecursive ft bt [k] v nb2")
    case (Pair e b)
    then show ?thesis
      using kv Cons.IH [of b] convertObjectToBlocksRecursive_append(1) [of ft bt "[k]" v nb nb2]
      by (cases e) simp_all
  qed
qed

lemma objectEntries_blocks:
  "namedBlocks bt nb \<Longrightarrow> namedBlocks bt (snd (objectEntries ft bt m nb))"
proof (induction m arbitrary: nb)
  case Nil
  then show ?case by simp
next
  case (Cons kv rest)
  obtain k v where kv: "kv = (k, v)" by (cases kv)
  show ?case
  proof (cases "convertObjectToBlocksRecursive ft bt [k] v nb")
    case (Pair e b)
    then show ?thesis
      using kv Cons.IH [of b] convertObjectToBlocksRecursive_blocks(1) [OF Cons.prems, of ft "[k]" v]
      by (cases e) simp_all
  qed
qed

lemma convertObjectToBlocks_append:
  "convertObjectToBlocks ft bt v (nb @ nb2)
     = (fst (convertObjectToBlocks ft bt v nb2), nb @ snd (convertObjectToBlocks ft bt v nb2))"
  by (cases v) (simp_all add: convertObjectToBlocks_def objectEntries_append)

lemma convertObjectToBlocks_blocks:
  "namedBlocks bt nb \<Longrightarrow> namedBlocks bt (snd (convertObjectToBlocks ft bt v nb))"
  by (cases v) (simp_all add: convertObjectToBlocks_def objectEntries_blocks)

text \<open>The items that one attribute of the input contributes to an empty body.\<close>

definition attributeItems :: "string \<Rightarrow> string \<times> cty option \<Rightarrow> wbody" where
  "attributeItems ft a =
     (case snd a of None \<Rightarrow> [] | Some val \<Rightarrow> convertAttribute ft (fst a) val [])"

lemma namedBlocks_names: "namedBlocks t bs \<Longrightarrow> list_all (\<lambda>i. itemName i = t) bs"
  by (simp add: namedBlocks_def list_all_iff)

definition fallback :: "string \<Rightarrow> cty \<Rightarrow> error option \<times> wbody \<Rightarrow> wbody" where
  "fallback n v r =
     (case r of (Some err, nb') \<Rightarrow> setAttributeWithExpressionHandling nb' n v
      | (None, nb') \<Rightarrow> nb')"

lemma attributeItems_simps:
  "attributeItems ft (n, None) = []"
  "attributeItems ft (n, Some val) = convertAttribute ft n val []"
  by (simp_all add: attributeItems_def)

lemma fallback_shape:
  assumes fresh: "\<not> list_ex (isAttributeNamed n) nb"
    and blocks: "namedBlocks n bs"
  shows "fallback n v (e, nb @ bs) = nb @ fallback n v (e, bs)"
proof (cases e)
  case None
  then show ?thesis by (simp add: fallback_def)
next
  case (Some err)
  have "\<not> list_ex (isAttributeNamed n) (nb @ bs)"
    using fresh list_ex_only_blocks [OF blocks, of n] by simp
  moreover have "\<not> list_ex (isAttributeNamed n) bs"
    using blocks by (rule list_ex_only_blocks)
  ultimately show ?thesis
    using Some
    by (simp add: fallback_def setAttributeWithExpressionHandling_expr setAttribute_fresh)
qed

lemma fallback_names:
  assumes blocks: "namedBlocks n bs"
  shows "list_all (\<lambda>i. itemName i = n) (fallback n v (e, bs))"
proof (cases e)
  case None
  then show ?thesis using namedBlocks_names [OF blocks] by (simp add: fallback_def)
next
  case (Some err)
  have "\<not> list_ex (isAttributeNamed n) bs"
    using blocks by (rule list_ex_only_blocks)
  then show ?thesis
    using Some namedBlocks_names [OF blocks]
    by (simp add: fallback_def setAttributeWithExpressionHandling_expr setAttribute_fresh)
qed


lemma convertAttribute_fallback:
  "convertAttribute ft n val nb =
     (if is_CTuple val
      then (if isHCLBlockArray ft n val then fallback n val (convertJSONBlockArray n val nb)
            else setAttributeWithExpressionHandling nb n val)
      else if is_CObject val
      then (if shouldConvertObjectToBlocks ft n val
            then fallback n val (convertObjectToBlocks ft n val nb)
            else setAttributeWithExpressionHandling nb n val)
      else setAttributeWithExpressionHandling nb n val)"
  by (simp add: convertAttribute_def fallback_def)

lemma convertAttribute_append:
  assumes fresh: "\<not> list_ex (isAttributeNamed n) nb"
  shows "convertAttribute ft n val nb = nb @ convertAttribute ft n val []"
proof -
  have plain: "setAttributeWithExpressionHandling nb n val
      = nb @ setAttributeWithExpressionHandling [] n val"
    using fresh by (simp add: setAttributeWithExpressionHandling_expr setAttribute_fresh)
  have arr: "fallback n val (convertJSONBlockArray n val nb)
      = nb @ fallback n val (convertJSONBlockArray n val [])"
    using convertJSONBlockArray_append [of n val nb "[]"]
      fallback_shape [OF fresh convertJSONBlockArray_blocks [of n "[]" val],
        of val "fst (convertJSONBlockArray n val [])"]
    by simp
  have obj: "fallback n val (convertObjectToBlocks ft n val nb)
      = nb @ fallback n val (convertObjectToBlocks ft n val [])"
    using convertObjectToBlocks_append [of ft n val nb "[]"]
      fallback_shape [OF fresh convertObjectToBlocks_blocks [of n "[]" ft val],
        of val "fst (convertObjectToBlocks ft n val [])"]
    by simp
  show ?thesis
    unfolding convertAttribute_fallback using plain arr obj by simp
qed

lemma convertAttribute_names:
  "list_all (\<lambda>i. itemName i = n) (convertAttribute ft n val [])"
proof -
  have plain: "list_all (\<lambda>i. itemName i = n) (setAttributeWithExpressionHandling [] n val)"
    by (simp add: setAttributeWithExpressionHandling_expr setAttribute_def)
  have arr: "list_all (\<lambda>i. itemName i = n) (fallback n val (convertJSONBlockArray n val []))"
    using fallback_names [OF convertJSONBlockArray_blocks [of n "[]" val],
        of val "fst (convertJSONBlockArray n val [])"]
    by simp
  have obj: "list_all (\<lambda>i. itemName i = n) (fallback n val (convertObjectToBlocks ft n val []))"
    using fallback_names [OF convertObjectToBlocks_blocks [of n "[]" ft val],
        of val "fst (convertObjectToBlocks ft n val [])"]
    by simp
  show ?thesis
    unfolding convertAttribute_fallback using plain arr obj by simp
qed

lemma attributeItems_names:
  "list_all (\<lambda>i. itemName i = fst a) (attributeItems ft a)"
  by (cases a; cases "snd a") (simp_all add: attributeItems_simps convertAttribute_names)

lemma other_name_not_attribute:
  "list_all (\<lambda>i. itemName i = n) xs \<Longrightarrow> m \<noteq> n \<Longrightarrow> \<not> list_ex (isAttributeNamed m) xs"
proof (induction xs)
  case Nil
  show ?case by simp
next
  case (Cons i xs)
  then show ?case by (cases i) auto
qed

lemma justAttributesLoop_concat:
  assumes "distinct (map fst attrs)"
    and "\<forall>a \<in> set attrs. \<not> list_ex (isAttributeNamed (fst a)) nb"
  shows "justAttributesLoop ft attrs nb = nb @ concat (map (attributeItems ft) attrs)"
  using assms
proof (induction attrs arbitrary: nb)
  case Nil
  show ?case by simp
next
  case (Cons a rest)
  obtain n vo where a: "a = (n, vo)" by (cases a)
  show ?case
  proof (cases vo)
    case None
    then show ?thesis using Cons a by (simp add: attributeItems_simps)
  next
    case (Some val)
    have fresh: "\<not> list_ex (isAttributeNamed n) nb" using Cons.prems(2) a by simp
    have step: "convertAttribute ft n val nb = nb @ convertAttribute ft n val []"
      using fresh by (rule convertAttribute_append)
    have "\<forall>a' \<in> set rest. \<not> list_ex (isAttributeNamed (fst a')) (nb @ convertAttribute ft n val [])"
    proof
      fix a' assume mem: "a' \<in> set rest"
      then have "fst a' \<noteq> n" using Cons.prems(1) a by auto
      then have "\<not> list_ex (isAttributeNamed (fst a')) (convertAttribute ft n val [])"
        using other_name_not_attribute [OF convertAttribute_names] by blast
      moreover have "\<not> list_ex (isAttributeNamed (fst a')) nb" using Cons.prems(2) mem by simp
      ultimately show "\<not> list_ex (isAttributeNamed (fst a')) (nb @ convertAttribute ft n val [])"
        by simp
    qed
    then have "justAttributesLoop ft rest (nb @ convertAttribute ft n val [])
        = (nb @ convertAttribute ft n val []) @ concat (map (attributeItems ft) rest)"
      using Cons.IH Cons.prems(1) by simp
    then show ?thesis using a Some step by (simp add: attributeItems_simps)
  qed
qed

lemma mset_concat_map_cong:
  "mset xs = mset ys \<Longrightarrow> mset (concat (map f xs)) = mset (concat (map f ys))"
proof -
  have "mset (concat (map f zs)) = (\<Sum>z \<in># mset zs. mset (f z))" for zs
    by (induction zs) simp_all
  then show "mset xs = mset ys \<Longrightarrow> mset (concat (map f xs)) = mset (concat (map f ys))"
    by simp
qed

section \<open>A failed block conversion leaves its blocks behind\<close>

text \<open>
  Claim C4.  When a value classified as block-shaped fails to convert, the key's whole
  value is to be emitted as a single plain attribute instead.  On the document
  \<open>{"resource":[{"a":1,"b":2},5]}\<close> the conversion of the block array fails at the second
  instance, after the block of the first has been added to the body: the result holds that
  block and the attribute, under either dialect.
\<close>

theorem failed_block_array_leaves_blocks:
  "convertToNativeHCL targetFileType
     (JsonBody (Some [(''resource'',
        Some (CTuple [CObject [(''a'', CNumber 1), (''b'', CNumber 2)], CNumber 5]))]) content) []
   = Inr [Block ''resource'' []
            [Attribute ''a'' (Literal (CNumber 1)), Attribute ''b'' (Literal (CNumber 2))],
          Attribute ''resource''
            (Literal (CTuple [CObject [(''a'', CNumber 1), (''b'', CNumber 2)], CNumber 5]))]"
  by (simp add: convertAttribute_def isHCLBlockArray_def hclBlockTypes_def
      extractBlockLabelsAndContent_def setAttributeWithExpressionHandling_def
      SetAttributeValue_def setAttribute_def)

section \<open>Attributes that fail to evaluate are left out\<close>

definition evaluated :: "string \<times> cty option \<Rightarrow> bool" where
  "evaluated a = (snd a \<noteq> None)"

text \<open>The input without the attributes whose evaluation failed, at every level.\<close>

fun dropFailed :: "jsonBody \<Rightarrow> jsonBody" where
  "dropFailed (JsonBody attrs content) =
     JsonBody (map_option (filter evaluated) attrs)
       (map_option (\<lambda>(cattrs, blocks).
           (filter evaluated cattrs, map (\<lambda>(t, ls, b). (t, ls, dropFailed b)) blocks))
         content)"

lemma justAttributesLoop_filter:
  "justAttributesLoop ft (filter evaluated as) nb = justAttributesLoop ft as nb"
  by (induction as arbitrary: nb) (auto simp: evaluated_def split: option.splits)

lemma contentAttributesLoop_filter:
  "contentAttributesLoop (filter evaluated as) nb = contentAttributesLoop as nb"
  by (induction as arbitrary: nb) (auto simp: evaluated_def split: option.splits)

lemma dropFailed_same:
  "convertToNativeHCL ft (dropFailed b) nb = convertToNativeHCL ft b nb"
  "contentBlocksLoop ft (map (\<lambda>(t, ls, b). (t, ls, dropFailed b)) blocks) nb
     = contentBlocksLoop ft blocks nb"
  by (induction ft b nb and ft blocks nb rule: convertToNativeHCL_contentBlocksLoop.induct)
     (auto simp: justAttributesLoop_filter contentAttributesLoop_filter
        split: option.splits sum.splits)

lemma failed_attribute_adds_nothing:
  assumes dist: "distinct (map fst attrs)" and failed: "(n, None) \<in> set attrs"
  shows "\<not> list_ex (\<lambda>i. itemName i = n) (concat (map (attributeItems ft) attrs))"
proof
  assume "list_ex (\<lambda>i. itemName i = n) (concat (map (attributeItems ft) attrs))"
  then obtain a i where a: "a \<in> set attrs" and i: "i \<in> set (attributeItems ft a)"
    and name: "itemName i = n"
    by (auto simp: list_ex_iff)
  have "itemName i = fst a"
    using attributeItems_names [of a ft] i by (simp add: list_all_iff)
  then have "fst a = n" using name by simp
  then have "a = (n, None)"
    using dist a failed by (cases a) (auto dest: eq_key_imp_eq_value)
  then show False using i by (simp add: attributeItems_simps)
qed

text \<open>
  Claim C10.  An attribute whose expression fails to evaluate is skipped at every level:
  the result of the conversion, error or document, is that of the input without those
  attributes.  When the body consists of attributes the conversion succeeds, and the
  document made from a fresh body holds neither an attribute nor a block under the name of
  a failed attribute.
\<close>

theorem failed_attributes_are_omitted:
  "convertToNativeHCL targetFileType b nativeBody
     = convertToNativeHCL targetFileType (dropFailed b) nativeBody
   \<and> (\<exists>out. convertToNativeHCL targetFileType (JsonBody (Some attrs) content) nativeBody
          = Inr out)
   \<and> (distinct (map fst attrs) \<longrightarrow> (n, None) \<in> set attrs \<longrightarrow>
        (\<exists>out. convertToNativeHCL targetFileType (JsonBody (Some attrs) content) [] = Inr out
           \<and> \<not> list_ex (\<lambda>i. itemName i = n) out))"
  using failed_attribute_adds_nothing [of attrs n targetFileType]
    justAttributesLoop_concat [of attrs "[]" targetFileType]
  by (simp add: dropFailed_same)

theorem failed_attributes_are_omitted_witness:
  "distinct (map fst [(''a'', None), (''b'', Some (CNumber 2))])
   \<and> (''a'', None) \<in> set [(''a'', None), (''b'', Some (CNumber 2))]
   \<and> (\<exists>out. convertToNativeHCL ''tfvars''
           (JsonBody (Some [(''a'', None), (''b'', Some (CNumber 2))]) None) [] = Inr out
         \<and> \<not> list_ex (\<lambda>i. itemName i = ''a'') out)"
  using failed_attributes_are_omitted
    [of "''tfvars''" "JsonBody None None" "[]" "[(''a'', None), (''b'', Some (CNumber 2))]"
      None "''a''"]
  by simp

section \<open>The order of the output follows the enumeration of the keys\<close>

text \<open>
  The attributes of a JSON body are held in a Go map, and the first loop of
  \<open>convertToNativeHCL\<close> ranges over that map.  Go does not fix the order of such a loop
  and varies it from run to run, so one input document is enumerated as any of the lists
  with the same entries.  The items of the output are added in the order of enumeration.

  Claim C9, as stated, asks two conversions of the same input under the same dialect to
  give identical documents.  The two enumerations of the document \<open>{"a":1,"b":2}\<close> give
  two different documents.
\<close>

theorem enumeration_order_changes_document:
  "mset [(''a'', Some (CNumber 1)), (''b'', Some (CNumber 2))]
     = mset [(''b'', Some (CNumber 2)), (''a'', Some (CNumber 1))]
   \<and> convertToNativeHCL ''tfvars''
        (JsonBody (Some [(''a'', Some (CNumber 1)), (''b'', Some (CNumber 2))]) None) []
     \<noteq> convertToNativeHCL ''tfvars''
        (JsonBody (Some [(''b'', Some (CNumber 2)), (''a'', Some (CNumber 1))]) None) []"
  by (simp add: convertAttribute_def setAttributeWithExpressionHandling_def
      SetAttributeValue_def setAttribute_def)

text \<open>
  Claim C9, amended.  The conversion is a function of the input document, the dialect
  (the value of \<open>targetFileType\<close>, written once before the conversion) and the order in
  which the keys are enumerated.  Two conversions of the same attributes under the same
  dialect both succeed, and their documents hold the same top-level attributes and blocks,
  possibly in a different order.
\<close>

theorem output_determined_up_to_order:
  assumes "distinct (map fst attrs)" and "mset attrs' = mset attrs"
  shows "\<exists>out out'.
      convertToNativeHCL targetFileType (JsonBody (Some attrs) content) [] = Inr out
    \<and> convertToNativeHCL targetFileType (JsonBody (Some attrs') content') [] = Inr out'
    \<and> mset out' = mset out"
proof -
  have "mset (map fst attrs') = mset (map fst attrs)"
    using assms(2) by simp
  then have "distinct (map fst attrs')"
    using assms(1) mset_eq_imp_distinct_iff by blast
  then have "justAttributesLoop targetFileType attrs' []
      = concat (map (attributeItems targetFileType) attrs')"
    using justAttributesLoop_concat [of attrs' "[]" targetFileType] by simp
  moreover have "justAttributesLoop targetFileType attrs []
      = concat (map (attributeItems targetFileType) attrs)"
    using assms(1) justAttributesLoop_concat [of attrs "[]" targetFileType] by simp
  ultimately show ?thesis
    using mset_concat_map_cong [OF assms(2), of "attributeItems targetFileType"] by simp
qed

theorem output_determined_up_to_order_witness:
  "\<exists>out out'.
      convertToNativeHCL ''tfvars''
        (JsonBody (Some [(''a'', Some (CNumber 1)), (''b'', Some (CNumber 2))]) None) [] = Inr out
    \<and> convertToNativeHCL ''tfvars''
        (JsonBody (Some [(''b'', Some (CNumber 2)), (''a'', Some (CNumber 1))]) None) [] = Inr out'
    \<and> mset out' = mset out"
proof -
  have d: "distinct (map fst [(''a'', Some (CNumber 1)), (''b'', Some (CNumber 2))])"
    by simp
  have m: "mset [(''b'', Some (CNumber 2)), (''a'', Some (CNumber 1))]
      = mset [(''a'', Some (CNumber 1)), (''b'', Some (CNumber 2))]"
    by simp
  show ?thesis
    by (rule output_determined_up_to_order [OF d m])
qed

section \<open>The string rules apply to an attribute's own value only\<close>

text \<open>
  \<open>setAttributeWithExpressionHandling\<close> looks at the value it is given and at nothing
  inside it: a list or an object goes to \<open>SetAttributeValue\<close> whole.  The library renders
  the literal of a value by structure, a tuple by its elements, an object by its attributes
  and a string as a quoted literal.  The tree below keeps that structure, so that the
  expression of an attribute can be compared leaf by leaf: a leaf is either a run of raw
  tokens or the ordinary literal of a scalar.
\<close>

datatype litTree =
    RawTokens "token list"
  | Scalar cty
  | TupleLit "litTree list"
  | ObjectLit "(string \<times> litTree) list"

fun literalTree :: "cty \<Rightarrow> litTree" where
  "literalTree (CTuple vs) = TupleLit (map literalTree vs)"
| "literalTree (CObject m) = ObjectLit (map (\<lambda>(k, v). (k, literalTree v)) m)"
| "literalTree v = Scalar v"

fun exprTree :: "wexpr \<Rightarrow> litTree" where
  "exprTree (Raw toks) = RawTokens toks"
| "exprTree (Literal v) = literalTree v"

fun rawLeaves :: "litTree \<Rightarrow> token list list" where
  "rawLeaves (RawTokens toks) = [toks]"
| "rawLeaves (Scalar v) = []"
| "rawLeaves (TupleLit ts) = concat (map rawLeaves ts)"
| "rawLeaves (ObjectLit m) = concat (map (\<lambda>(k, t). rawLeaves t) m)"

text \<open>\<open>GetAttribute\<close> of the library: the expression of the attribute of that name.\<close>

fun GetAttribute :: "wbody \<Rightarrow> string \<Rightarrow> wexpr option" where
  "GetAttribute [] n = None"
| "GetAttribute (Attribute m e # rest) n = (if m = n then Some e else GetAttribute rest n)"
| "GetAttribute (Block t ls b # rest) n = GetAttribute rest n"

text \<open>
  The emitter in the words of the specification (section 4.6): a list or an object is
  converted recursively, and the three string rules are applied at every string leaf.  A
  field of an object is an attribute under its own name.
\<close>

fun emit_spec :: "string \<Rightarrow> cty \<Rightarrow> litTree" where
  "emit_spec n (CString s) = exprTree (attributeExpression n (CString s))"
| "emit_spec n (CTuple vs) = TupleLit (map (emit_spec n) vs)"
| "emit_spec n (CObject m) = ObjectLit (map (\<lambda>(k, v). (k, emit_spec k v)) m)"
| "emit_spec n v = Scalar v"

lemma GetAttribute_map_replace:
  "list_ex (isAttributeNamed n) body \<Longrightarrow>
     GetAttribute (map (replaceAttribute n e) body) n = Some e"
proof (induction body)
  case Nil
  then show ?case by simp
next
  case (Cons i body)
  then show ?case by (cases i) auto
qed

lemma GetAttribute_append_fresh:
  "\<not> list_ex (isAttributeNamed n) body \<Longrightarrow> GetAttribute (body @ [Attribute n e]) n = Some e"
proof (induction body)
  case Nil
  then show ?case by simp
next
  case (Cons i body)
  then show ?case by (cases i) auto
qed

lemma GetAttribute_setAttribute: "GetAttribute (setAttribute body n e) n = Some e"
  by (simp add: setAttribute_def GetAttribute_map_replace GetAttribute_append_fresh)

lemma rawLeaves_literalTree: "rawLeaves (literalTree v) = []"
  by (induction v rule: literalTree.induct) (auto simp: concat_eq_Nil_conv)

text \<open>
  Claim C5, as stated, has the three rules applied at every string leaf inside a list or
  an object.  For the attribute \<open>ids = ["${var.a}"]\<close> the emitter writes the ordinary
  literal of the list, in which the string is a quoted literal; the rule for simple
  references would have written the bare reference \<open>var.a\<close> in its place.
\<close>

theorem nested_string_is_not_unwrapped:
  "map_option exprTree
     (GetAttribute (setAttributeWithExpressionHandling [] ''ids'' (CTuple [CString ''${var.a}''])) ''ids'')
     = Some (TupleLit [Scalar (CString ''${var.a}'')])
   \<and> emit_spec ''ids'' (CTuple [CString ''${var.a}''])
     = TupleLit [RawTokens [Token TokenIdent ''var.a'']]
   \<and> map_option exprTree
     (GetAttribute (setAttributeWithExpressionHandling [] ''ids'' (CTuple [CString ''${var.a}''])) ''ids'')
     \<noteq> Some (emit_spec ''ids'' (CTuple [CString ''${var.a}'']))"
  by (simp add: setAttributeWithExpressionHandling_def SetAttributeValue_def setAttribute_def
      attributeExpression_def unwrapInterpolationExpression_def isSimpleReference_def
      isSimpleRune_def)

text \<open>
  Claim C5, amended.  For an attribute whose value is a list or an object the emitter
  writes the ordinary literal of the whole value, in which no leaf is a run of raw tokens:
  every string inside is an ordinary quoted literal.  The three string rules are applied
  only when the value of the attribute is itself a string.
\<close>

theorem string_rules_at_top_level_only:
  "(is_CTuple val \<or> is_CObject val \<longrightarrow>
      map_option exprTree (GetAttribute (setAttributeWithExpressionHandling body n val) n)
        = Some (literalTree val)
      \<and> rawLeaves (literalTree val) = [])
   \<and> GetAttribute (setAttributeWithExpressionHandling body n (CString s)) n
      = Some (if n = ''type'' \<and> isUnquotedType s then Raw [Token TokenIdent s]
              else if unwrapInterpolationExpression s \<noteq> []
              then Raw [Token TokenIdent (unwrapInterpolationExpression s)]
              else if Contains s ''${''
              then Raw [Token TokenQuotedLit ([CHR 0x22] @ s @ [CHR 0x22])]
              else Literal (CString s))"
proof -
  have whole: "GetAttribute (setAttributeWithExpressionHandling body n val) n = Some (Literal val)"
    if "is_CTuple val \<or> is_CObject val"
    using that
    by (cases val)
       (simp_all add: setAttributeWithExpressionHandling_expr GetAttribute_setAttribute
          attributeExpression_def)
  show ?thesis
    using whole rawLeaves_literalTree [of val]
    by (simp add: setAttributeWithExpressionHandling_expr GetAttribute_setAttribute
        attributeExpression_def)
qed

theorem string_rules_at_top_level_only_witness:
  "(is_CTuple (CTuple [CString ''${var.a}'']) \<or> is_CObject (CTuple [CString ''${var.a}'']))
   \<and> map_option exprTree
        (GetAttribute (setAttributeWithExpressionHandling [] ''ids'' (CTuple [CString ''${var.a}''])) ''ids'')
      = Some (TupleLit [Scalar (CString ''${var.a}'')])
   \<and> GetAttribute (setAttributeWithExpressionHandling [] ''ids'' (CString ''${var.a}'')) ''ids''
      = Some (Raw [Token TokenIdent ''var.a''])"
  using string_rules_at_top_level_only
    [of "CTuple [CString ''${var.a}'']" "[]" "''ids''" "''${var.a}''"]
  by (simp add: unwrapInterpolationExpression_def isSimpleReference_def isSimpleRune_def)

section \<open>The reverse direction: package \<open>convert\<close>\<close>

subsection \<open>The syntax tree (\<open>hclsyntax\<close>)\<close>

text \<open>
  Only the byte offsets of a source range are read.  The expression kinds that
  \<open>ConvertExpression\<close> and \<open>convertStringPart\<close> do not name (function calls, binary
  operations, index and splat expressions, parentheses, ...) are one constructor: all the
  code takes from them is their range.  A literal holds a \<open>cty\<close> value; of a
  for-expression only the fields that the code reads are kept.
\<close>

datatype hclRange = Range (StartByte: nat) (EndByte: nat)

datatype traverser =
    TraverseRoot string
  | TraverseAttr string
  | TraverseIndex cty
  | TraverseSplat

datatype operation = OpLogicalNot | OpNegate

datatype expr =
    LiteralValueExpr cty hclRange
  | ScopeTraversalExpr "traverser list" hclRange
  | UnaryOpExpr operation expr hclRange
  | TemplateExpr "expr list" hclRange
  | TemplateWrapExpr expr hclRange
  | TupleConsExpr "expr list" hclRange
  | ObjectConsExpr "(expr \<times> expr) list" hclRange
  | ObjectConsKeyExpr expr
  | ConditionalExpr expr expr expr hclRange
  | TemplateJoinExpr expr
  | ForExpr string string expr expr hclRange
  | OtherExpr hclRange

fun exprRange :: "expr \<Rightarrow> hclRange" where
  "exprRange (LiteralValueExpr v r) = r"
| "exprRange (ScopeTraversalExpr t r) = r"
| "exprRange (UnaryOpExpr op e r) = r"
| "exprRange (TemplateExpr parts r) = r"
| "exprRange (TemplateWrapExpr e r) = r"
| "exprRange (TupleConsExpr es r) = r"
| "exprRange (ObjectConsExpr items r) = r"
| "exprRange (ObjectConsKeyExpr e) = exprRange e"
| "exprRange (ConditionalExpr c t f r) = r"
| "exprRange (TemplateJoinExpr e) = exprRange e"
| "exprRange (ForExpr k v coll e r) = r"
| "exprRange (OtherExpr r) = r"

datatype hclBody = SyntaxBody (Attributes: "(string \<times> expr) list") (Blocks: "hclBlock list")
  and hclBlock = SyntaxBlock (BlockType: string) (Labels: "string list") (BlockBody: hclBody)

subsection \<open>Results, errors and the library\<close>

text \<open>
  The functions of the package return a value and an error.  A panic (a slice out of
  bounds, a failed type assertion, \<open>AsString\<close> on a value that is no string) is not an
  error value: no \<open>if err != nil\<close> of the source sees it.
\<close>

datatype convertError =
    UnableToConvertBlock string "string list"
  | InvalidHCLDetected string
  | Diagnostics
  | ConvertFailed
  | Wrapped string convertError

datatype 'a result = Ok 'a | Err convertError | Panic

fun wrapError :: "string \<Rightarrow> 'a result \<Rightarrow> 'a result" where
  "wrapError msg (Err e) = Err (Wrapped msg e)"
| "wrapError msg r = r"

text \<open>
  The values the converter puts into its output: a \<open>cty\<close> value to be marshalled
  (\<open>ctyjson.SimpleJSONValue\<close>), a string, a slice or a \<open>jsonObj\<close>.  A \<open>jsonObj\<close> is a Go
  map; it is kept as an association list with \<open>m[k] = v\<close> as \<open>mapSet\<close>.
\<close>

datatype json =
    SimpleJSONValue cty
  | JString string
  | JArray "json list"
  | JObject "(string \<times> json) list"

type_synonym jsonObj = "(string \<times> json) list"

fun mapSet :: "string \<Rightarrow> 'v \<Rightarrow> (string \<times> 'v) list \<Rightarrow> (string \<times> 'v) list" where
  "mapSet k v [] = [(k, v)]"
| "mapSet k v ((k', v') # rest) = (if k' = k then (k, v) # rest else (k', v') # mapSet k v rest)"

text \<open>
  What the converter asks of the libraries: the value of an expression under the empty
  evaluation context (\<open>expr.Value(evalContext)\<close>, consulted when \<open>Simplify\<close> is set), the
  value of a unary operation on a literal operand and of a template that is a string
  literal (\<open>Value(nil)\<close>), and the conversion of a literal to a string
  (\<open>ctyconvert.Convert\<close>).  Each is \<open>None\<close> when the library reports an error.
\<close>

record library =
  simplifyValue :: "expr \<Rightarrow> cty option"
  unaryValue :: "operation \<Rightarrow> cty \<Rightarrow> cty option"
  templateValue :: "expr list \<Rightarrow> cty option"
  convertToString :: "cty \<Rightarrow> string option"

record converter =
  bytes :: string
  Simplify :: bool

subsection \<open>Source text\<close>

definition rangeSource :: "converter \<Rightarrow> hclRange \<Rightarrow> string result" where
  "rangeSource c r =
     (let end' = (if EndByte r < length (bytes c) \<and> bytes c ! EndByte r = CHR '')''
                  then EndByte r + 1 else EndByte r)
      in if StartByte r \<le> end' \<and> end' \<le> length (bytes c)
         then Ok (take (end' - StartByte r) (drop (StartByte r) (bytes c)))
         else Panic)"

definition wrapExpr :: "converter \<Rightarrow> expr \<Rightarrow> string result" where
  "wrapExpr c e =
     (case rangeSource c (exprRange e) of
        Ok src \<Rightarrow> Ok (''${'' @ src @ ''}'')
      | Err err \<Rightarrow> Err err
      | Panic \<Rightarrow> Panic)"

text \<open>
  \<open>strings.Replace\<close> of the two-character sequence \<open>c{\<close> by \<open>cc{\<close>, all occurrences from
  left to right.
\<close>

fun escapeIntroducer :: "char \<Rightarrow> string \<Rightarrow> string" where
  "escapeIntroducer c (x # y # rest) =
     (if x = c \<and> y = CHR ''{'' then c # c # CHR ''{'' # escapeIntroducer c rest
      else x # escapeIntroducer c (y # rest))"
| "escapeIntroducer c s = s"

definition escapeLiteral :: "string \<Rightarrow> string" where
  "escapeLiteral lit = escapeIntroducer CHR ''%'' (escapeIntroducer CHR ''$'' lit)"

subsection \<open>Templates\<close>

fun IsStringLiteral :: "expr list \<Rightarrow> bool" where
  "IsStringLiteral [LiteralValueExpr v r] = True"
| "IsStringLiteral parts = False"

function convertTemplate :: "library \<Rightarrow> converter \<Rightarrow> expr list \<Rightarrow> string result"
  and convertParts :: "library \<Rightarrow> converter \<Rightarrow> expr list \<Rightarrow> string result"
  and convertStringPart :: "library \<Rightarrow> converter \<Rightarrow> expr \<Rightarrow> string result"
  and convertTemplateConditional ::
    "library \<Rightarrow> converter \<Rightarrow> expr \<Rightarrow> expr \<Rightarrow> expr \<Rightarrow> string result"
  and convertTemplateFor ::
    "library \<Rightarrow> converter \<Rightarrow> string \<Rightarrow> string \<Rightarrow> expr \<Rightarrow> expr \<Rightarrow> string result"
where
  "convertTemplate L c parts =
     (if IsStringLiteral parts
      then (case templateValue L parts of
              None \<Rightarrow> Err Diagnostics
            | Some v \<Rightarrow> (case v of CString s \<Rightarrow> Ok (escapeLiteral s) | _ \<Rightarrow> Panic))
      else convertParts L c parts)"
| "convertParts L c [] = Ok []"
| "convertParts L c (part # rest) =
     (case convertStringPart L c part of
        Ok s \<Rightarrow> (case convertParts L c rest of
                    Ok t \<Rightarrow> Ok (s @ t)
                  | Err err \<Rightarrow> Err err
                  | Panic \<Rightarrow> Panic)
      | Err err \<Rightarrow> Err err
      | Panic \<Rightarrow> Panic)"
| "convertStringPart L c e =
     (case e of
        LiteralValueExpr v r \<Rightarrow>
          if v = CNull then Ok ''null''
          else (case convertToString L v of
                  None \<Rightarrow> Err ConvertFailed
                | Some s \<Rightarrow> Ok (escapeLiteral s))
      | TemplateExpr parts r \<Rightarrow> convertTemplate L c parts
      | TemplateWrapExpr wrapped r \<Rightarrow> convertStringPart L c wrapped
      | ConditionalExpr cond trueResult falseResult r \<Rightarrow>
          convertTemplateConditional L c cond trueResult falseResult
      | TemplateJoinExpr tuple \<Rightarrow>
          (case tuple of
             ForExpr keyVar valVar collExpr valExpr r \<Rightarrow>
               convertTemplateFor L c keyVar valVar collExpr valExpr
           | _ \<Rightarrow> Panic)
      | _ \<Rightarrow> wrapExpr c e)"
| "convertTemplateConditional L c cond trueResult falseResult =
     (case rangeSource c (exprRange cond) of
        Ok condSrc \<Rightarrow>
          (case convertStringPart L c trueResult of
             Ok t \<Rightarrow>
               (case convertStringPart L c falseResult of
                  Ok f \<Rightarrow>
                    Ok (''%{if '' @ condSrc @ ''}'' @ t
                        @ (if length f > 0 then ''%{else}'' @ f else []) @ ''%{endif}'')
                | Err err \<Rightarrow> Ok (''%{if '' @ condSrc @ ''}'' @ t @ ''%{endif}'')
                | Panic \<Rightarrow> Panic)
           | Err err \<Rightarrow> Ok []
           | Panic \<Rightarrow> Panic)
      | Err err \<Rightarrow> Err err
      | Panic \<Rightarrow> Panic)"
| "convertTemplateFor L c keyVar valVar collExpr valExpr =
     (case rangeSource c (exprRange collExpr) of
        Ok collSrc \<Rightarrow>
          (case convertStringPart L c valExpr of
             Ok templ \<Rightarrow>
               Ok (''%{for '' @ (if length keyVar > 0 then keyVar @ '', '' else []) @ valVar
                   @ '' in '' @ collSrc @ ''}'' @ templ @ ''%{endfor}'')
           | Err err \<Rightarrow> Err err
           | Panic \<Rightarrow> Panic)
      | Err err \<Rightarrow> Err err
      | Panic \<Rightarrow> Panic)"

  by pat_completeness auto
termination
  by (relation "measure (\<lambda>x. case x of
        Inl (Inl (L, c, parts)) \<Rightarrow> 2 * size_list size parts + 1
      | Inl (Inr (L, c, parts)) \<Rightarrow> 2 * size_list size parts
      | Inr (Inl (L, c, e)) \<Rightarrow> 2 * size e
      | Inr (Inr (Inl (L, c, cond, t, f))) \<Rightarrow> 2 * (size t + size f) + 1
      | Inr (Inr (Inr (L, c, kv, vv, coll, e))) \<Rightarrow> 2 * size e + 1)") auto

definition convertKey :: "library \<Rightarrow> converter \<Rightarrow> expr \<Rightarrow> string result" where
  "convertKey L c keyExpr =
     (case keyExpr of
        ObjectConsKeyExpr wrapped \<Rightarrow>
          (case wrapped of
             ScopeTraversalExpr t r \<Rightarrow> rangeSource c (exprRange wrapped)
           | _ \<Rightarrow> convertStringPart L c wrapped)
      | _ \<Rightarrow> convertStringPart L c keyExpr)"

subsection \<open>Expressions\<close>

text \<open>A string returned where the caller expects any JSON value.\<close>

fun jsonString :: "string result \<Rightarrow> json result" where
  "jsonString (Ok s) = Ok (JString s)"
| "jsonString (Err err) = Err err"
| "jsonString Panic = Panic"

definition convertUnary ::
  "library \<Rightarrow> converter \<Rightarrow> operation \<Rightarrow> expr \<Rightarrow> hclRange \<Rightarrow> json result" where
  "convertUnary L c op operand r =
     (case operand of
        LiteralValueExpr lit lr \<Rightarrow>
          (case unaryValue L op lit of
             None \<Rightarrow> Err Diagnostics
           | Some val \<Rightarrow> Ok (SimpleJSONValue val))
      | _ \<Rightarrow> jsonString (wrapExpr c (UnaryOpExpr op operand r)))"

function ConvertExpression :: "library \<Rightarrow> converter \<Rightarrow> expr \<Rightarrow> json result"
  and convertElements :: "library \<Rightarrow> converter \<Rightarrow> expr list \<Rightarrow> json list \<Rightarrow> json list result"
  and convertItems ::
    "library \<Rightarrow> converter \<Rightarrow> (expr \<times> expr) list \<Rightarrow> jsonObj \<Rightarrow> jsonObj result"
where
  "ConvertExpression L c e =
     (case (if Simplify c then simplifyValue L e else None) of
        Some v \<Rightarrow> Ok (SimpleJSONValue v)
      | None \<Rightarrow>
          (case e of
             LiteralValueExpr v r \<Rightarrow> Ok (SimpleJSONValue v)
           | ScopeTraversalExpr traversal r \<Rightarrow>
               if length traversal = 1
               then (case hd traversal of
                       TraverseRoot name \<Rightarrow> Ok (JString name)
                     | _ \<Rightarrow> jsonString (wrapExpr c e))
               else jsonString (wrapExpr c e)
           | UnaryOpExpr op operand r \<Rightarrow> convertUnary L c op operand r
           | TemplateExpr parts r \<Rightarrow> jsonString (convertTemplate L c parts)
           | TemplateWrapExpr wrapped r \<Rightarrow> ConvertExpression L c wrapped
           | TupleConsExpr exprs r \<Rightarrow>
               (case convertElements L c exprs [] of
                  Ok list \<Rightarrow> Ok (JArray list)
                | Err err \<Rightarrow> Err err
                | Panic \<Rightarrow> Panic)
           | ObjectConsExpr items r \<Rightarrow>
               (case convertItems L c items [] of
                  Ok m \<Rightarrow> Ok (JObject m)
                | Err err \<Rightarrow> Err err
                | Panic \<Rightarrow> Panic)
           | _ \<Rightarrow> jsonString (wrapExpr c e)))"
| "convertElements L c [] list = Ok list"
| "convertElements L c (ex # rest) list =
     (case ConvertExpression L c ex of
        Ok elem \<Rightarrow> convertElements L c rest (list @ [elem])
      | Err err \<Rightarrow> Err err
      | Panic \<Rightarrow> Panic)"
| "convertItems L c [] m = Ok m"
| "convertItems L c ((keyExpr, valueExpr) # rest) m =
     (case convertKey L c keyExpr of
        Ok key \<Rightarrow>
          (case ConvertExpression L c valueExpr of
             Ok val \<Rightarrow> convertItems L c rest (mapSet key val m)
           | Err err \<Rightarrow> Err err
           | Panic \<Rightarrow> Panic)
      | Err err \<Rightarrow> Err err
      | Panic \<Rightarrow> Panic)"

  by pat_completeness auto
termination
  by (relation "measure (\<lambda>x. case x of
        Inl (L, c, e) \<Rightarrow> size e
      | Inr (Inl (L, c, exprs, list)) \<Rightarrow> size_list size exprs
      | Inr (Inr (L, c, items, m)) \<Rightarrow> size_list (size_prod size size) items)") auto

subsection \<open>Bodies and blocks\<close>

text \<open>
  \<open>convertBlock\<close> walks the labels of the block down the output, following or creating one
  nested \<open>jsonObj\<close> per label, converts the body of the block and then stores it under the
  last key.  The nested maps are updated in place in the source; here each level returns
  its updated map to the level above.  The body is converted only once the walk has
  succeeded, so an error of the walk comes first.
\<close>

fun storeBlock ::
  "string \<Rightarrow> string list \<Rightarrow> string \<Rightarrow> string list \<Rightarrow> jsonObj result \<Rightarrow> jsonObj \<Rightarrow> jsonObj result"
where
  "storeBlock blockType blockLabels key [] val out =
     (case wrapError ''convert body'' val of
        Ok v \<Rightarrow>
          (case map_of out key of
             Some current \<Rightarrow>
               (case current of
                  JArray currentTyped \<Rightarrow> Ok (mapSet key (JArray (currentTyped @ [JObject v])) out)
                | _ \<Rightarrow> Err (InvalidHCLDetected key))
           | None \<Rightarrow> Ok (mapSet key (JArray [JObject v]) out))
      | Err err \<Rightarrow> Err err
      | Panic \<Rightarrow> Panic)"
| "storeBlock blockType blockLabels key (label # rest) val out =
     (case map_of out key of
        Some existing \<Rightarrow>
          (case existing of
             JObject inner \<Rightarrow>
               (case storeBlock blockType blockLabels label rest val inner of
                  Ok inner' \<Rightarrow> Ok (mapSet key (JObject inner') out)
                | Err err \<Rightarrow> Err err
                | Panic \<Rightarrow> Panic)
           | _ \<Rightarrow> Err (UnableToConvertBlock blockType blockLabels))
      | None \<Rightarrow>
          (case storeBlock blockType blockLabels label rest val [] of
             Ok inner' \<Rightarrow> Ok (mapSet key (JObject inner') out)
           | Err err \<Rightarrow> Err err
           | Panic \<Rightarrow> Panic))"

fun convertAttributes ::
  "library \<Rightarrow> converter \<Rightarrow> (string \<times> expr) list \<Rightarrow> jsonObj \<Rightarrow> jsonObj result" where
  "convertAttributes L c [] out = Ok out"
| "convertAttributes L c ((key, e) # rest) out =
     (case wrapError ''convert expression'' (ConvertExpression L c e) of
        Ok v \<Rightarrow> convertAttributes L c rest (mapSet key v out)
      | Err err \<Rightarrow> Err err
      | Panic \<Rightarrow> Panic)"

function ConvertBody :: "library \<Rightarrow> converter \<Rightarrow> hclBody \<Rightarrow> jsonObj result"
  and convertBlocks :: "library \<Rightarrow> converter \<Rightarrow> hclBlock list \<Rightarrow> jsonObj \<Rightarrow> jsonObj result"
  and convertBlock :: "library \<Rightarrow> converter \<Rightarrow> hclBlock \<Rightarrow> jsonObj \<Rightarrow> jsonObj result"
where
  "ConvertBody L c (SyntaxBody attrs blocks) =
     (case convertBlocks L c blocks [] of
        Ok out \<Rightarrow> convertAttributes L c attrs out
      | Err err \<Rightarrow> Err err
      | Panic \<Rightarrow> Panic)"
| "convertBlocks L c [] out = Ok out"
| "convertBlocks L c (block # rest) out =
     (case wrapError ''convert block'' (convertBlock L c block out) of
        Ok out' \<Rightarrow> convertBlocks L c rest out'
      | Err err \<Rightarrow> Err err
      | Panic \<Rightarrow> Panic)"
| "convertBlock L c (SyntaxBlock blockType blockLabels blockBody) out =
     storeBlock blockType blockLabels blockType blockLabels (ConvertBody L c blockBody) out"
  by pat_completeness auto
termination
  by (relation "measure (\<lambda>x. case x of
        Inl (L, c, body) \<Rightarrow> size body
      | Inr (Inl (L, c, blocks, out)) \<Rightarrow> size_list size blocks
      | Inr (Inr (L, c, block, out)) \<Rightarrow> size block)") auto

subsection \<open>A library for the closed examples\<close>

text \<open>
  \<open>hclsyntax\<close> evaluates a unary operation by converting the operand to the type of the
  operator's parameter, a number for negation and a bool for the logical complement, and
  reports an error when the operand does not convert or is null.  Of the literal operands
  that the parser builds (null, the two bools and numbers) only a number can be negated and
  only a bool complemented.
\<close>

fun literalUnary :: "operation \<Rightarrow> cty \<Rightarrow> cty option" where
  "literalUnary OpNegate (CNumber n) = Some (CNumber (- n))"
| "literalUnary OpLogicalNot (CBool b) = Some (CBool (\<not> b))"
| "literalUnary op v = None"

text \<open>
  \<open>cty\<close> converts a string to itself, a bool to its keyword and a number to its decimal
  text; null, tuples and objects do not convert.  A number written in a file has a finite
  decimal expansion, which \<open>fractionDigits\<close> produces in full (a fraction with denominator
  \<open>d\<close> that terminates has at most \<open>d\<close> digits); this is the text of the library for the
  numbers that its precision holds exactly as written.
\<close>

definition digitChar :: "nat \<Rightarrow> char" where
  "digitChar d = ''0123456789'' ! d"

function naturalText :: "nat \<Rightarrow> string" where
  "naturalText n = (if n < 10 then [digitChar n] else naturalText (n div 10) @ [digitChar (n mod 10)])"
  by pat_completeness auto
termination
  by (relation "measure (\<lambda>n. n)") auto

fun fractionDigits :: "nat \<Rightarrow> nat \<Rightarrow> nat \<Rightarrow> string" where
  "fractionDigits 0 num den = []"
| "fractionDigits (Suc fuel) num den =
     (if num = 0 then []
      else digitChar ((num * 10) div den) # fractionDigits fuel ((num * 10) mod den) den)"

definition numberText :: "rat \<Rightarrow> string" where
  "numberText q =
     (case quotient_of q of (a, b) \<Rightarrow>
        (if a < 0 then ''-'' else [])
        @ naturalText (nat \<bar>a\<bar> div nat b)
        @ (if nat \<bar>a\<bar> mod nat b = 0 then []
           else ''.'' @ fractionDigits (nat b) (nat \<bar>a\<bar> mod nat b) (nat b)))"

fun stringOfScalar :: "cty \<Rightarrow> string option" where
  "stringOfScalar (CString s) = Some s"
| "stringOfScalar (CBool b) = Some (if b then ''true'' else ''false'')"
| "stringOfScalar (CNumber n) = Some (numberText n)"
| "stringOfScalar v = None"

text \<open>
  The value of a template that is a string literal is its only part converted to a string;
  a null part is an error.
\<close>

fun literalTemplate :: "expr list \<Rightarrow> cty option" where
  "literalTemplate [LiteralValueExpr v r] = map_option CString (stringOfScalar v)"
| "literalTemplate parts = None"

text \<open>The examples below do not set \<open>Simplify\<close>.\<close>

definition exampleLibrary :: library where
  "exampleLibrary =
     \<lparr> simplifyValue = (\<lambda>e. None), unaryValue = literalUnary,
       templateValue = literalTemplate, convertToString = stringOfScalar \<rparr>"

text \<open>
  Scenario C of the specification: the block \<open>resource "aws_instance" "web"\<close> whose body
  sets \<open>ami = "ami-1"\<close> and \<open>instance_type = var.instance_type\<close>, one attribute per
  line.
\<close>

definition scenarioBytes :: string where
  "scenarioBytes = ''resource '' @ [CHR 0x22] @ ''aws_instance'' @ [CHR 0x22] @ '' ''
               @ [CHR 0x22] @ ''web'' @ [CHR 0x22] @ '' {'' @ [CHR 0x0A]
               @ ''  ami = '' @ [CHR 0x22] @ ''ami-1'' @ [CHR 0x22] @ [CHR 0x0A]
               @ ''  instance_type = var.instance_type'' @ [CHR 0x0A] @ ''}'' @ [CHR 0x0A]"

lemma resource_block_scenario:
  "ConvertBody exampleLibrary \<lparr> bytes = scenarioBytes, Simplify = False \<rparr>
     (SyntaxBody []
        [SyntaxBlock ''resource'' [''aws_instance'', ''web'']
           (SyntaxBody
              [(''ami'', TemplateExpr [LiteralValueExpr (CString ''ami-1'') (Range 41 46)]
                           (Range 40 47)),
               (''instance_type'',
                  ScopeTraversalExpr [TraverseRoot ''var'', TraverseAttr ''instance_type'']
                    (Range 66 83))]
              [])])
   = Ok [(''resource'', JObject [(''aws_instance'', JObject [(''web'',
          JArray [JObject [(''ami'', JString ''ami-1''),
                           (''instance_type'', JString ''${var.instance_type}'')]])])])]"
  by (simp add: exampleLibrary_def ConvertExpression.simps(1) wrapExpr_def rangeSource_def
      escapeLiteral_def scenarioBytes_def)

text \<open>A number interpolated into a string, \<open>x = "a${1}"\<close>, is written with its digits.\<close>

lemma interpolated_number_scenario:
  "ConvertExpression exampleLibrary
     \<lparr> bytes = ''x = '' @ [CHR 0x22] @ ''a${1}'' @ [CHR 0x22], Simplify = False \<rparr>
     (TemplateExpr
        [LiteralValueExpr (CString ''a'') (Range 5 6), LiteralValueExpr (CNumber 1) (Range 8 9)]
        (Range 4 11))
   = Ok (JString ''a1'')"
  by (simp add: exampleLibrary_def ConvertExpression.simps(1) escapeLiteral_def numberText_def
      digitChar_def)

section \<open>Nodes that the serializer wraps\<close>

declare ConvertExpression.simps(1) [simp del]

text \<open>
  With \<open>Simplify\<close> set, a node for which the library finds a value is replaced by that
  value before the serializer looks at its kind.  The program never sets \<open>Simplify\<close>.
\<close>

definition simplified :: "library \<Rightarrow> converter \<Rightarrow> expr \<Rightarrow> bool" where
  "simplified L c e = (Simplify c \<and> simplifyValue L e \<noteq> None)"

fun isLiteralValueExpr :: "expr \<Rightarrow> bool" where
  "isLiteralValueExpr (LiteralValueExpr v r) = True"
| "isLiteralValueExpr e = False"

text \<open>The nodes that the serializer does not take apart.\<close>

definition undecomposable :: "expr \<Rightarrow> bool" where
  "undecomposable e =
     (case e of
        ScopeTraversalExpr traversal r \<Rightarrow>
          (case traversal of [TraverseRoot name] \<Rightarrow> False | _ \<Rightarrow> True)
      | UnaryOpExpr op operand r \<Rightarrow> \<not> isLiteralValueExpr operand
      | ConditionalExpr cond t f r \<Rightarrow> True
      | ForExpr keyVar valVar collExpr valExpr r \<Rightarrow> True
      | ObjectConsKeyExpr k \<Rightarrow> True
      | TemplateJoinExpr t \<Rightarrow> True
      | OtherExpr r \<Rightarrow> True
      | _ \<Rightarrow> False)"

lemma not_simplified: "\<not> simplified L c e \<Longrightarrow> (if Simplify c then simplifyValue L e else None) = None"
  by (auto simp: simplified_def)


lemma undecomposable_wrapped:
  assumes "undecomposable e" and "\<not> simplified L c e"
  shows "ConvertExpression L c e = jsonString (wrapExpr c e)"
proof -
  note switch = ConvertExpression.simps(1) [of L c e, unfolded not_simplified [OF assms(2)] option.case]
  show ?thesis
  proof (cases e)
    case (ScopeTraversalExpr traversal r)
    then have "traversal = [] \<or> length traversal \<noteq> 1
        \<or> (length traversal = 1 \<and> (\<forall>name. hd traversal \<noteq> TraverseRoot name))"
      using assms(1)
      by (cases traversal; cases "hd traversal"; cases "tl traversal")
         (auto simp: undecomposable_def)
    then show ?thesis
      using switch ScopeTraversalExpr by (auto split: traverser.splits)
  next
    case (UnaryOpExpr op operand r)
    then show ?thesis
      using assms(1) switch by (cases operand) (auto simp: undecomposable_def convertUnary_def)
  qed (use assms(1) switch in \<open>auto simp: undecomposable_def\<close>)
qed

lemma rangeSource_exact:
  assumes "bytes c = pre @ src @ post" and "post = [] \<or> hd post \<noteq> CHR '')''"
  shows "rangeSource c (Range (length pre) (length pre + length src)) = Ok src"
proof -
  have "\<not> (length pre + length src < length (bytes c)
           \<and> bytes c ! (length pre + length src) = CHR '')'')"
    using assms by (cases post) (auto simp: nth_append)
  then show ?thesis
    using assms(1) by (simp add: rangeSource_def)
qed

lemma unwrap_simple_reference:
  assumes "isSimpleReference ref"
  shows "unwrapInterpolationExpression (''${'' @ ref @ ''}'') = ref"
    and "\<not> isUnquotedType (''${'' @ ref @ ''}'')"
  using assms
  by (auto simp: unwrapInterpolationExpression_def isSimpleReference_def isUnquotedType_def)

section \<open>Simple references and the round trip\<close>

text \<open>
  Claim C6, as stated for simple references, has the string \<open>"${" + reference + "}"\<close> come
  back from the round trip.  The string \<open>"${foo}"\<close> is emitted as the bare expression
  \<open>foo\<close>, which reads back as a traversal of the single root \<open>foo\<close>; \<open>ConvertExpression\<close>
  returns the name of such a traversal as a plain string, so the round trip yields \<open>"foo"\<close>.
\<close>

theorem bare_identifier_loses_wrapper:
  "setAttributeWithExpressionHandling [] ''name'' (CString ''${foo}'')
     = [Attribute ''name'' (Raw [Token TokenIdent ''foo''])]
   \<and> ConvertExpression exampleLibrary
        \<lparr> bytes = ''name = foo'' @ [CHR 0x0A], Simplify = False \<rparr>
        (ScopeTraversalExpr [TraverseRoot ''foo''] (Range 7 10))
      = Ok (JString ''foo'')
   \<and> ConvertExpression exampleLibrary
        \<lparr> bytes = ''name = foo'' @ [CHR 0x0A], Simplify = False \<rparr>
        (ScopeTraversalExpr [TraverseRoot ''foo''] (Range 7 10))
      \<noteq> Ok (JString ''${foo}'')"
  by (simp add: setAttributeWithExpressionHandling_def isUnquotedType_def
      unwrapInterpolationExpression_def isSimpleReference_def isSimpleRune_def
      SetAttributeRaw_def setAttribute_def ConvertExpression.simps(1))

text \<open>
  Claim C6, amended.  For every simple reference the string \<open>"${" + reference + "}"\<close> is
  emitted as the bare expression.  When that expression reads back as a node that the
  serializer does not take apart, such as the traversal \<open>var.name\<close> of more than one step,
  and its range covers the text of the reference (the text that follows does not begin
  with a closing parenthesis), the serializer returns \<open>"${" + reference + "}"\<close> again.  When
  it reads back as a traversal of a single root, the serializer returns the bare name.
  This is the serializer as the program runs it, without a value from \<open>Simplify\<close>.
\<close>

theorem simple_reference_round_trip:
  assumes "isSimpleReference ref"
  shows "setAttributeWithExpressionHandling [] n (CString (''${'' @ ref @ ''}''))
       = [Attribute n (Raw [Token TokenIdent ref])]
   \<and> (undecomposable e \<and> \<not> simplified L c e
        \<and> exprRange e = Range (length pre) (length pre + length ref)
        \<and> bytes c = pre @ ref @ post \<and> (post = [] \<or> hd post \<noteq> CHR '')'')
      \<longrightarrow> ConvertExpression L c e = Ok (JString (''${'' @ ref @ ''}'')))
   \<and> (\<not> simplified L c (ScopeTraversalExpr [TraverseRoot name] r)
      \<longrightarrow> ConvertExpression L c (ScopeTraversalExpr [TraverseRoot name] r) = Ok (JString name))"
proof -
  have emit: "setAttributeWithExpressionHandling [] n (CString (''${'' @ ref @ ''}''))
       = [Attribute n (Raw [Token TokenIdent ref])]"
    using unwrap_simple_reference [OF assms] assms
    by (simp add: setAttributeWithExpressionHandling_def SetAttributeRaw_def setAttribute_def
        isSimpleReference_def)
  have reread: "ConvertExpression L c e = Ok (JString (''${'' @ ref @ ''}''))"
    if "undecomposable e" and "\<not> simplified L c e"
      and "exprRange e = Range (length pre) (length pre + length ref)"
      and "bytes c = pre @ ref @ post" and "post = [] \<or> hd post \<noteq> CHR '')''"
    using undecomposable_wrapped [OF that(1,2)] rangeSource_exact [OF that(4,5)] that(3)
    by (simp add: wrapExpr_def)
  have root: "ConvertExpression L c (ScopeTraversalExpr [TraverseRoot name] r) = Ok (JString name)"
    if "\<not> simplified L c (ScopeTraversalExpr [TraverseRoot name] r)"
    using ConvertExpression.simps(1) [of L c "ScopeTraversalExpr [TraverseRoot name] r",
        unfolded not_simplified [OF that] option.case]
    by simp
  show ?thesis using emit reread root by blast
qed

theorem simple_reference_round_trip_witness:
  "isSimpleReference ''var.name''
   \<and> setAttributeWithExpressionHandling [] ''name'' (CString ''${var.name}'')
     = [Attribute ''name'' (Raw [Token TokenIdent ''var.name''])]
   \<and> undecomposable (ScopeTraversalExpr [TraverseRoot ''var'', TraverseAttr ''name''] (Range 7 15))
   \<and> \<not> simplified exampleLibrary \<lparr> bytes = ''name = var.name'' @ [CHR 0x0A], Simplify = False \<rparr>
         (ScopeTraversalExpr [TraverseRoot ''var'', TraverseAttr ''name''] (Range 7 15))
   \<and> ConvertExpression exampleLibrary
        \<lparr> bytes = ''name = var.name'' @ [CHR 0x0A], Simplify = False \<rparr>
        (ScopeTraversalExpr [TraverseRoot ''var'', TraverseAttr ''name''] (Range 7 15))
      = Ok (JString ''${var.name}'')
   \<and> ConvertExpression exampleLibrary
        \<lparr> bytes = ''name = var.name'' @ [CHR 0x0A], Simplify = False \<rparr>
        (ScopeTraversalExpr [TraverseRoot ''string''] (Range 7 13))
      = Ok (JString ''string'')"
proof -
  have simple: "isSimpleReference ''var.name''"
    by (simp add: isSimpleReference_def isSimpleRune_def)
  show ?thesis
    using simple simple_reference_round_trip
      [OF simple, of "''name''"
        "ScopeTraversalExpr [TraverseRoot ''var'', TraverseAttr ''name''] (Range 7 15)"
        exampleLibrary "\<lparr> bytes = ''name = var.name'' @ [CHR 0x0A], Simplify = False \<rparr>"
        "''name = ''" "[CHR 0x0A]" "''string''" "Range 7 13"]
    by (simp add: undecomposable_def simplified_def eval_nat_numeral)
qed

section \<open>Conflicts between blocks of one name\<close>

text \<open>
  Claim C3, as stated, lets a block whose key already holds a list be appended to that
  list, and makes a key holding a non-list the only hard error of the reverse direction.
  In the source \<open>foo {}\<close> followed by \<open>foo "bar" {}\<close> the key \<open>foo\<close> holds the list made
  for the first block when the labels of the second are walked; the second block is not
  appended, the conversion fails with the error of the walk.
\<close>

theorem labelled_block_after_unlabelled_fails:
  "ConvertBody exampleLibrary
     \<lparr> bytes = ''foo {}'' @ [CHR 0x0A] @ ''foo '' @ [CHR 0x22] @ ''bar'' @ [CHR 0x22] @ '' {}'',
       Simplify = False \<rparr>
     (SyntaxBody []
        [SyntaxBlock ''foo'' [] (SyntaxBody [] []),
         SyntaxBlock ''foo'' [''bar''] (SyntaxBody [] [])])
   = Err (Wrapped ''convert block'' (UnableToConvertBlock ''foo'' [''bar'']))"
  by simp

fun isJArray :: "json \<Rightarrow> bool" where
  "isJArray (JArray xs) = True"
| "isJArray j = False"

fun isJObject :: "json \<Rightarrow> bool" where
  "isJObject (JObject m) = True"
| "isJObject j = False"

text \<open>
  What an output holds at a path of keys, one nested object per key before the last.  The
  path of a block is its type followed by its labels.
\<close>

fun lookupPath :: "jsonObj \<Rightarrow> string list \<Rightarrow> json option" where
  "lookupPath m [] = None"
| "lookupPath m [k] = map_of m k"
| "lookupPath m (k # k' # ks) =
     (case map_of m k of
        Some (JObject inner) \<Rightarrow> lookupPath inner (k' # ks)
      | _ \<Rightarrow> None)"

text \<open>Some proper prefix of the path holds a value that is not an object.\<close>

definition walkConflict :: "jsonObj \<Rightarrow> string list \<Rightarrow> bool" where
  "walkConflict out path =
     list_ex (\<lambda>n. case lookupPath out (take n path) of
                    Some j \<Rightarrow> \<not> isJObject j
                  | None \<Rightarrow> False)
       [1..<length path]"

lemma map_of_mapSet: "map_of (mapSet k v m) k' = (if k' = k then Some v else map_of m k')"
  by (induction m) auto

lemma lookupPath_empty: "lookupPath [] path = None"
proof (cases path)
  case (Cons k ks)
  then show ?thesis by (cases ks) simp_all
qed simp

lemma lookupPath_step:
  "path \<noteq> [] \<Longrightarrow>
   lookupPath m (k # path) =
     (case map_of m k of Some (JObject inner) \<Rightarrow> lookupPath inner path | _ \<Rightarrow> None)"
  by (cases path) auto

lemma walkConflict_last: "walkConflict out [k] = False"
  by (simp add: walkConflict_def)

lemma ex_from_one:
  "(\<exists>n\<in>{Suc 0..<Suc (Suc m)}. P n) = (P (Suc 0) \<or> (\<exists>n\<in>{Suc 0..<Suc m}. P (Suc n)))"
proof
  assume "\<exists>n\<in>{Suc 0..<Suc (Suc m)}. P n"
  then obtain n where n: "Suc 0 \<le> n" "n < Suc (Suc m)" "P n" by auto
  show "P (Suc 0) \<or> (\<exists>n\<in>{Suc 0..<Suc m}. P (Suc n))"
  proof (cases "n = Suc 0")
    case True
    then show ?thesis using n by simp
  next
    case False
    then obtain n' where "n = Suc n'" "Suc 0 \<le> n'" "n' < Suc m"
      using n by (cases n) auto
    then show ?thesis using n by auto
  qed
next
  assume "P (Suc 0) \<or> (\<exists>n\<in>{Suc 0..<Suc m}. P (Suc n))"
  then show "\<exists>n\<in>{Suc 0..<Suc (Suc m)}. P n" by auto
qed

lemma walkConflict_step:
  "walkConflict out (k # l # ls) =
     (case map_of out k of
        None \<Rightarrow> False
      | Some existing \<Rightarrow>
          (case existing of
             JObject inner \<Rightarrow> walkConflict inner (l # ls)
           | _ \<Rightarrow> True))"
proof -
  have unfold: "walkConflict out (k # l # ls)
      = ((case map_of out k of Some j \<Rightarrow> \<not> isJObject j | None \<Rightarrow> False)
         \<or> (\<exists>n\<in>{Suc 0..<Suc (length ls)}.
               case lookupPath out (k # take n (l # ls)) of
                 Some j \<Rightarrow> \<not> isJObject j
               | None \<Rightarrow> False))"
    unfolding walkConflict_def list_ex_iff set_upt by (simp add: ex_from_one)
  have inner: "walkConflict m (l # ls)
      = (\<exists>n\<in>{Suc 0..<Suc (length ls)}.
               case lookupPath m (take n (l # ls)) of
                 Some j \<Rightarrow> \<not> isJObject j
               | None \<Rightarrow> False)" for m
    unfolding walkConflict_def list_ex_iff set_upt by simp
  have deeper: "lookupPath out (k # take n (l # ls))
      = (case map_of out k of
           Some (JObject m) \<Rightarrow> lookupPath m (take n (l # ls))
         | _ \<Rightarrow> None)" if "n \<in> {Suc 0..<Suc (length ls)}" for n
  proof -
    from that have "take n (l # ls) \<noteq> []" by (cases n) auto
    then show ?thesis by (rule lookupPath_step)
  qed
  show ?thesis
  proof (cases "map_of out k")
    case None
    then show ?thesis using unfold deeper by simp
  next
    case (Some existing)
    then show ?thesis
      using unfold deeper inner by (cases existing) simp_all
  qed
qed

lemma walkConflict_empty: "walkConflict [] path = False"
  unfolding walkConflict_def list_ex_iff set_upt by (simp add: lookupPath_empty)

text \<open>The walk and the store of \<open>convertBlock\<close>, seen through the paths of the output.\<close>

lemma storeBlock_conflict:
  "walkConflict out (key # labels) \<Longrightarrow>
     storeBlock blockType blockLabels key labels val out
       = Err (UnableToConvertBlock blockType blockLabels)"
proof (induction labels arbitrary: key out)
  case Nil
  then show ?case by (simp add: walkConflict_last)
next
  case (Cons label rest)
  show ?case
  proof (cases "map_of out key")
    case None
    then show ?thesis using Cons.prems by (simp add: walkConflict_step)
  next
    case (Some existing)
    then show ?thesis
      using Cons.prems Cons.IH by (cases existing) (simp_all add: walkConflict_step)
  qed
qed

lemma storeBlock_body_error:
  "\<not> walkConflict out (key # labels) \<Longrightarrow>
     storeBlock blockType blockLabels key labels (Err err) out
       = Err (Wrapped ''convert body'' err)"
proof (induction labels arbitrary: key out)
  case Nil
  then show ?case by simp
next
  case (Cons label rest)
  have fresh: "\<not> walkConflict [] (label # rest)"
    by (simp add: walkConflict_empty)
  show ?case
  proof (cases "map_of out key")
    case None
    then show ?thesis using Cons.IH [OF fresh] by simp
  next
    case (Some existing)
    then show ?thesis
      using Cons.prems Cons.IH by (cases existing) (simp_all add: walkConflict_step)
  qed
qed

lemma storeBlock_not_list:
  "\<not> walkConflict out (key # labels) \<Longrightarrow>
   lookupPath out (key # labels) = Some current \<Longrightarrow> \<not> isJArray current \<Longrightarrow>
     storeBlock blockType blockLabels key labels (Ok v) out
       = Err (InvalidHCLDetected (last (key # labels)))"
proof (induction labels arbitrary: key out)
  case Nil
  then show ?case by (cases current) simp_all
next
  case (Cons label rest)
  show ?case
  proof (cases "map_of out key")
    case None
    then show ?thesis using Cons.prems by simp
  next
    case (Some existing)
    then show ?thesis
      using Cons.prems Cons.IH by (cases existing) (simp_all add: walkConflict_step)
  qed
qed

lemma storeBlock_stores:
  "\<not> walkConflict out (key # labels) \<Longrightarrow>
   lookupPath out (key # labels) = held \<Longrightarrow>
   held = None \<and> xs = [] \<or> held = Some (JArray xs) \<Longrightarrow>
     \<exists>out'. storeBlock blockType blockLabels key labels (Ok v) out = Ok out'
        \<and> lookupPath out' (key # labels) = Some (JArray (xs @ [JObject v]))
        \<and> (\<forall>q. take (length q) (key # labels) \<noteq> q \<longrightarrow> lookupPath out' q = lookupPath out q)"
proof (induction labels arbitrary: key out)
  case Nil
  have other: "lookupPath (mapSet key (JArray ys) out) q = lookupPath out q"
    if "take (length q) [key] \<noteq> q" for q ys
  proof (cases q)
    case Nil
    then show ?thesis by simp
  next
    case (Cons k ks)
    show ?thesis
    proof (cases ks)
      case Nil
      then show ?thesis using that Cons by (simp add: map_of_mapSet)
    next
      case (Cons k' ks')
      then show ?thesis
        using \<open>q = k # ks\<close> Nil.prems by (auto simp: map_of_mapSet)
    qed
  qed
  show ?case
    using Nil.prems other by (auto simp: map_of_mapSet)
next
  case (Cons label rest)
  define inner where
    "inner = (case map_of out key of Some (JObject m) \<Rightarrow> m | _ \<Rightarrow> [])"
  have object: "map_of out key = None \<and> inner = [] \<or> map_of out key = Some (JObject inner)"
    using Cons.prems(1) unfolding inner_def
    by (cases "map_of out key"; cases "the (map_of out key)") (simp_all add: walkConflict_step)
  have quiet: "\<not> walkConflict inner (label # rest)"
    using Cons.prems(1) object
    by (auto simp: walkConflict_step walkConflict_empty)
  have held: "lookupPath inner (label # rest) = held"
    using Cons.prems(2,3) object
    by (auto simp: lookupPath_empty)
  from Cons.IH [OF quiet held Cons.prems(3)] obtain inner' where
    stored: "storeBlock blockType blockLabels label rest (Ok v) inner = Ok inner'"
    and now: "lookupPath inner' (label # rest) = Some (JArray (xs @ [JObject v]))"
    and rest: "\<And>q. take (length q) (label # rest) \<noteq> q \<Longrightarrow> lookupPath inner' q = lookupPath inner q"
    by blast
  have result: "storeBlock blockType blockLabels key (label # rest) (Ok v) out
      = Ok (mapSet key (JObject inner') out)"
    using object stored by auto
  have there: "lookupPath (mapSet key (JObject inner') out) (key # label # rest)
      = Some (JArray (xs @ [JObject v]))"
    using now by (simp add: map_of_mapSet)
  have other: "lookupPath (mapSet key (JObject inner') out) q = lookupPath out q"
    if "take (length q) (key # label # rest) \<noteq> q" for q
  proof (cases q)
    case Nil
    then show ?thesis by simp
  next
    case outer: (Cons k ks)
    show ?thesis
    proof (cases ks)
      case Nil
      then show ?thesis using that outer by (simp add: map_of_mapSet)
    next
      case (Cons k' ks')
      note q = outer [unfolded Cons]
      show ?thesis
      proof (cases "k = key")
        case True
        then have "take (length (k' # ks')) (label # rest) \<noteq> k' # ks'"
          using that q by simp
        from rest [OF this] show ?thesis
          using q True object by (auto simp: map_of_mapSet lookupPath_empty)
      next
        case False
        then show ?thesis using q by (simp add: map_of_mapSet)
      qed
    qed
  qed
  show ?case using result there other by simp
qed

text \<open>
  Claim C3, amended.  A block is stored at the path made of its type and its labels.  If
  a proper prefix of that path holds a value that is not an object (such as the list left
  by a block of the same type without labels), the conversion fails in the walk of the
  labels.  Otherwise, once the body of the block has been converted: a list held at the
  path gets the body appended, a path that holds nothing gets a one-element list, and in
  both cases what the output holds at any path that is not a prefix of the block's path is
  unchanged; a value at the path that is not a list is an error.  These two conflicts are
  not the only errors: the error of the body of the block and the error of an attribute
  expression are passed on.
\<close>

theorem block_is_stored_at_its_path:
  "(walkConflict out (blockType # blockLabels) \<longrightarrow>
      convertBlock L c (SyntaxBlock blockType blockLabels blockBody) out
        = Err (UnableToConvertBlock blockType blockLabels))
   \<and> (\<not> walkConflict out (blockType # blockLabels) \<and> ConvertBody L c blockBody = Ok v
        \<and> lookupPath out (blockType # blockLabels) = Some (JArray xs) \<longrightarrow>
      (\<exists>out'. convertBlock L c (SyntaxBlock blockType blockLabels blockBody) out = Ok out'
         \<and> lookupPath out' (blockType # blockLabels) = Some (JArray (xs @ [JObject v]))
         \<and> (\<forall>q. take (length q) (blockType # blockLabels) \<noteq> q \<longrightarrow>
                lookupPath out' q = lookupPath out q)))
   \<and> (\<not> walkConflict out (blockType # blockLabels) \<and> ConvertBody L c blockBody = Ok v
        \<and> lookupPath out (blockType # blockLabels) = None \<longrightarrow>
      (\<exists>out'. convertBlock L c (SyntaxBlock blockType blockLabels blockBody) out = Ok out'
         \<and> lookupPath out' (blockType # blockLabels) = Some (JArray [JObject v])
         \<and> (\<forall>q. take (length q) (blockType # blockLabels) \<noteq> q \<longrightarrow>
                lookupPath out' q = lookupPath out q)))
   \<and> (\<not> walkConflict out (blockType # blockLabels) \<and> ConvertBody L c blockBody = Ok v
        \<and> lookupPath out (blockType # blockLabels) = Some current \<and> \<not> isJArray current \<longrightarrow>
      convertBlock L c (SyntaxBlock blockType blockLabels blockBody) out
        = Err (InvalidHCLDetected (last (blockType # blockLabels))))
   \<and> (\<not> walkConflict out (blockType # blockLabels) \<and> ConvertBody L c blockBody = Err err \<longrightarrow>
      convertBlock L c (SyntaxBlock blockType blockLabels blockBody) out
        = Err (Wrapped ''convert body'' err))
   \<and> (ConvertExpression L c e = Err err \<longrightarrow>
      ConvertBody L c (SyntaxBody [(name, e)] []) = Err (Wrapped ''convert expression'' err))"
proof -
  have conflict: "convertBlock L c (SyntaxBlock blockType blockLabels blockBody) out
        = Err (UnableToConvertBlock blockType blockLabels)"
    if "walkConflict out (blockType # blockLabels)"
    using storeBlock_conflict [OF that] by simp
  have appended: "\<exists>out'. convertBlock L c (SyntaxBlock blockType blockLabels blockBody) out = Ok out'
         \<and> lookupPath out' (blockType # blockLabels) = Some (JArray (xs @ [JObject v]))
         \<and> (\<forall>q. take (length q) (blockType # blockLabels) \<noteq> q \<longrightarrow>
                lookupPath out' q = lookupPath out q)"
    if "\<not> walkConflict out (blockType # blockLabels)" and "ConvertBody L c blockBody = Ok v"
      and "lookupPath out (blockType # blockLabels) = Some (JArray xs)"
    using storeBlock_stores [OF that(1) that(3), of xs blockType blockLabels v] that(2) by simp
  have created: "\<exists>out'. convertBlock L c (SyntaxBlock blockType blockLabels blockBody) out = Ok out'
         \<and> lookupPath out' (blockType # blockLabels) = Some (JArray [JObject v])
         \<and> (\<forall>q. take (length q) (blockType # blockLabels) \<noteq> q \<longrightarrow>
                lookupPath out' q = lookupPath out q)"
    if "\<not> walkConflict out (blockType # blockLabels)" and "ConvertBody L c blockBody = Ok v"
      and "lookupPath out (blockType # blockLabels) = None"
    using storeBlock_stores [OF that(1) that(3), of "[]" blockType blockLabels v] that(2) by simp
  have not_list: "convertBlock L c (SyntaxBlock blockType blockLabels blockBody) out
        = Err (InvalidHCLDetected (last (blockType # blockLabels)))"
    if "\<not> walkConflict out (blockType # blockLabels)" and "ConvertBody L c blockBody = Ok v"
      and "lookupPath out (blockType # blockLabels) = Some current" and "\<not> isJArray current"
    using storeBlock_not_list [OF that(1) that(3) that(4)] that(2) by simp
  have body: "convertBlock L c (SyntaxBlock blockType blockLabels blockBody) out
        = Err (Wrapped ''convert body'' err)"
    if "\<not> walkConflict out (blockType # blockLabels)" and "ConvertBody L c blockBody = Err err"
    using storeBlock_body_error [OF that(1)] that(2) by simp
  have attribute: "ConvertBody L c (SyntaxBody [(name, e)] []) = Err (Wrapped ''convert expression'' err)"
    if "ConvertExpression L c e = Err err"
    using that by simp
  show ?thesis
    using conflict appended created not_list body attribute by blast
qed

theorem block_is_stored_at_its_path_witness:
  "\<not> walkConflict
        [(''resource'', JObject [(''a'', JObject [(''x'', JArray [JObject []]),
                                                  (''y'', JArray [JObject []])])])]
        [''resource'', ''a'', ''x'']
   \<and> ConvertBody exampleLibrary \<lparr> bytes = ''n = 1'', Simplify = False \<rparr>
        (SyntaxBody [(''n'', LiteralValueExpr (CNumber 1) (Range 4 5))] [])
      = Ok [(''n'', SimpleJSONValue (CNumber 1))]
   \<and> lookupPath
        [(''resource'', JObject [(''a'', JObject [(''x'', JArray [JObject []]),
                                                  (''y'', JArray [JObject []])])])]
        [''resource'', ''a'', ''x'']
      = Some (JArray [JObject []])
   \<and> convertBlock exampleLibrary \<lparr> bytes = ''n = 1'', Simplify = False \<rparr>
        (SyntaxBlock ''resource'' [''a'', ''x'']
           (SyntaxBody [(''n'', LiteralValueExpr (CNumber 1) (Range 4 5))] []))
        [(''resource'', JObject [(''a'', JObject [(''x'', JArray [JObject []]),
                                                  (''y'', JArray [JObject []])])])]
      = Ok [(''resource'', JObject [(''a'', JObject
              [(''x'', JArray [JObject [], JObject [(''n'', SimpleJSONValue (CNumber 1))]]),
               (''y'', JArray [JObject []])])])]
   \<and> take (length [''resource'', ''a'', ''y'']) [''resource'', ''a'', ''x'']
        \<noteq> [''resource'', ''a'', ''y'']
   \<and> lookupPath
        [(''resource'', JObject [(''a'', JObject
              [(''x'', JArray [JObject [], JObject [(''n'', SimpleJSONValue (CNumber 1))]]),
               (''y'', JArray [JObject []])])])]
        [''resource'', ''a'', ''y'']
      = Some (JArray [JObject []])
   \<and> lookupPath [(''locals'', JArray [JObject []])] [''resource'', ''a'', ''x''] = None
   \<and> convertBlock exampleLibrary \<lparr> bytes = ''n = 1'', Simplify = False \<rparr>
        (SyntaxBlock ''resource'' [''a'', ''x'']
           (SyntaxBody [(''n'', LiteralValueExpr (CNumber 1) (Range 4 5))] []))
        [(''locals'', JArray [JObject []])]
      = Ok [(''locals'', JArray [JObject []]),
            (''resource'', JObject [(''a'', JObject
              [(''x'', JArray [JObject [(''n'', SimpleJSONValue (CNumber 1))]])])])]
   \<and> walkConflict [(''foo'', JArray [JObject []])] [''foo'', ''bar'']
   \<and> convertBlock exampleLibrary \<lparr> bytes = ''n = 1'', Simplify = False \<rparr>
        (SyntaxBlock ''foo'' [''bar'']
           (SyntaxBody [(''n'', LiteralValueExpr (CNumber 1) (Range 4 5))] []))
        [(''foo'', JArray [JObject []])]
      = Err (UnableToConvertBlock ''foo'' [''bar''])
   \<and> lookupPath [(''foo'', JObject [(''bar'', JArray [JObject []])])] [''foo'']
      = Some (JObject [(''bar'', JArray [JObject []])])
   \<and> \<not> isJArray (JObject [(''bar'', JArray [JObject []])])
   \<and> convertBlock exampleLibrary \<lparr> bytes = ''n = 1'', Simplify = False \<rparr>
        (SyntaxBlock ''foo'' []
           (SyntaxBody [(''n'', LiteralValueExpr (CNumber 1) (Range 4 5))] []))
        [(''foo'', JObject [(''bar'', JArray [JObject []])])]
      = Err (InvalidHCLDetected ''foo'')
   \<and> ConvertExpression exampleLibrary \<lparr> bytes = ''x = -true'', Simplify = False \<rparr>
        (UnaryOpExpr OpNegate (LiteralValueExpr (CBool True) (Range 5 9)) (Range 4 9))
      = Err Diagnostics
   \<and> ConvertBody exampleLibrary \<lparr> bytes = ''x = -true'', Simplify = False \<rparr>
        (SyntaxBody
           [(''x'', UnaryOpExpr OpNegate (LiteralValueExpr (CBool True) (Range 5 9)) (Range 4 9))]
           [])
      = Err (Wrapped ''convert expression'' Diagnostics)
   \<and> convertBlock exampleLibrary \<lparr> bytes = ''x = -true'', Simplify = False \<rparr>
        (SyntaxBlock ''locals'' []
           (SyntaxBody
              [(''x'', UnaryOpExpr OpNegate (LiteralValueExpr (CBool True) (Range 5 9))
                         (Range 4 9))]
              []))
        []
      = Err (Wrapped ''convert body'' (Wrapped ''convert expression'' Diagnostics))"
  using block_is_stored_at_its_path
    [where L = exampleLibrary and c = "\<lparr> bytes = ''n = 1'', Simplify = False \<rparr>"
       and blockType = "''resource''" and blockLabels = "[''a'', ''x'']"
       and blockBody = "SyntaxBody [(''n'', LiteralValueExpr (CNumber 1) (Range 4 5))] []"
       and out = "[(''resource'', JObject [(''a'', JObject [(''x'', JArray [JObject []]),
                                                  (''y'', JArray [JObject []])])])]"
       and v = "[(''n'', SimpleJSONValue (CNumber 1))]" and xs = "[JObject []]"]
    block_is_stored_at_its_path
    [where L = exampleLibrary and c = "\<lparr> bytes = ''n = 1'', Simplify = False \<rparr>"
       and blockType = "''resource''" and blockLabels = "[''a'', ''x'']"
       and blockBody = "SyntaxBody [(''n'', LiteralValueExpr (CNumber 1) (Range 4 5))] []"
       and out = "[(''locals'', JArray [JObject []])]"
       and v = "[(''n'', SimpleJSONValue (CNumber 1))]"]
    block_is_stored_at_its_path
    [where L = exampleLibrary and c = "\<lparr> bytes = ''n = 1'', Simplify = False \<rparr>"
       and blockType = "''foo''" and blockLabels = "[''bar'']"
       and blockBody = "SyntaxBody [(''n'', LiteralValueExpr (CNumber 1) (Range 4 5))] []"
       and out = "[(''foo'', JArray [JObject []])]"]
    block_is_stored_at_its_path
    [where L = exampleLibrary and c = "\<lparr> bytes = ''n = 1'', Simplify = False \<rparr>"
       and blockType = "''foo''" and blockLabels = "[]"
       and blockBody = "SyntaxBody [(''n'', LiteralValueExpr (CNumber 1) (Range 4 5))] []"
       and out = "[(''foo'', JObject [(''bar'', JArray [JObject []])])]"
       and v = "[(''n'', SimpleJSONValue (CNumber 1))]"
       and current = "JObject [(''bar'', JArray [JObject []])]"]
    block_is_stored_at_its_path
    [where L = exampleLibrary and c = "\<lparr> bytes = ''x = -true'', Simplify = False \<rparr>"
       and blockType = "''locals''" and blockLabels = "[]"
       and blockBody = "SyntaxBody
              [(''x'', UnaryOpExpr OpNegate (LiteralValueExpr (CBool True) (Range 5 9))
                         (Range 4 9))]
              []"
       and out = "[]" and err = "Wrapped ''convert expression'' Diagnostics"
       and e = "UnaryOpExpr OpNegate (LiteralValueExpr (CBool True) (Range 5 9)) (Range 4 9)"
       and name = "''x''"]
  by (simp add: walkConflict_def exampleLibrary_def ConvertExpression.simps(1) convertUnary_def)

text \<open>
  Two blocks \<open>resource "a" "x"\<close> with a block \<open>resource "a" "y"\<close> between them: the third
  block is appended to the list of the first, next to the list of the second.
\<close>

lemma repeated_labelled_block_scenario:
  "ConvertBody exampleLibrary \<lparr> bytes = [], Simplify = False \<rparr>
     (SyntaxBody []
        [SyntaxBlock ''resource'' [''a'', ''x''] (SyntaxBody [] []),
         SyntaxBlock ''resource'' [''a'', ''y''] (SyntaxBody [] []),
         SyntaxBlock ''resource'' [''a'', ''x''] (SyntaxBody [] [])])
   = Ok [(''resource'', JObject [(''a'', JObject
           [(''x'', JArray [JObject [], JObject []]), (''y'', JArray [JObject []])])])]"
  by simp

section \<open>When the expression serializer returns a value\<close>



















end
